theory Spec2Isabelle
  imports Complex_Main "HOL-Library.Word" "HOL-Library.Sublist" "HOL-Library.AList"
begin

unbundle bit_operations_syntax

section \<open>Bytes, C character classes and string searching\<close>

text \<open>
  A \<open>std::string\<close> is a list of bytes (\<open>string\<close>, a \<open>char list\<close>); \<open>byte\<close> is the value
  of a byte as an \<open>unsigned char\<close>. The character classes are those of the "C" locale, the
  locale of a process that never calls \<open>setlocale\<close>.
\<close>

definition byte :: "char \<Rightarrow> nat" where
  "byte c = of_char c"

definition isdigit :: "char \<Rightarrow> bool" where
  "isdigit c \<longleftrightarrow> 48 \<le> byte c \<and> byte c \<le> 57"

definition isxdigit :: "char \<Rightarrow> bool" where
  "isxdigit c \<longleftrightarrow> (48 \<le> byte c \<and> byte c \<le> 57)
     \<or> (65 \<le> byte c \<and> byte c \<le> 70) \<or> (97 \<le> byte c \<and> byte c \<le> 102)"

definition tolower :: "char \<Rightarrow> char" where
  "tolower c = (if 65 \<le> byte c \<and> byte c \<le> 90 then char_of (byte c + 32) else c)"

text \<open>
  The upper-casing counterpart of \<open>tolower\<close>; the code does not call it, it serves to
  state that the classifier ignores letter case.
\<close>

definition toupper :: "char \<Rightarrow> char" where
  "toupper c = (if 97 \<le> byte c \<and> byte c \<le> 122 then char_of (byte c - 32) else c)"

text \<open>
  \<open>s.find(w)\<close>: the first position at which \<open>w\<close> occurs in \<open>s\<close>, \<open>None\<close> for \<open>npos\<close>.
  \<open>s.substr(0, n)\<close> is \<open>take n s\<close> and \<open>s.substr(n)\<close> is \<open>drop n s\<close>.
\<close>

fun find_from :: "nat \<Rightarrow> string \<Rightarrow> string \<Rightarrow> nat option" where
  "find_from i w [] = (if w = [] then Some i else None)"
| "find_from i w (c # cs) =
     (if take (length w) (c # cs) = w then Some i else find_from (Suc i) w cs)"

definition find_str :: "string \<Rightarrow> string \<Rightarrow> nat option" where
  "find_str s w = find_from 0 w s"

section \<open>SanitizeToUTF8\<close>

text \<open>
  The body of the loop of \<open>SanitizeToUTF8\<close> for one byte \<open>c\<close>, appending to \<open>result\<close>;
  the \<open>switch\<close> is the inner chain of cases, its \<open>default\<close> the last one.
\<close>

definition sanitize_step :: "string \<Rightarrow> char \<Rightarrow> string" where
  "sanitize_step result c =
     (if byte c < 0x80 then result @ [c]
      else if 0x80 \<le> byte c \<and> byte c \<le> 0x9F then
        (if byte c = 0x91 then result @ [CHR 0x27]
         else if byte c = 0x92 then result @ [CHR 0x27]
         else if byte c = 0x93 then result @ [CHR 0x22]
         else if byte c = 0x94 then result @ [CHR 0x22]
         else if byte c = 0x96 then result @ ''-''
         else if byte c = 0x97 then result @ ''-''
         else if byte c = 0x85 then result @ ''...''
         else if byte c = 0x99 then result @ ''(TM)''
         else result @ ''?'')
      else result @ [c])"

definition SanitizeToUTF8 :: "string \<Rightarrow> string" where
  "SanitizeToUTF8 input = foldl sanitize_step [] input"

text \<open>
  The substitution table in the words of the specification: what one byte of the range
  \<open>[0x80, 0x9F]\<close> is replaced by.
\<close>

definition substitution :: "char \<Rightarrow> string" where
  "substitution c =
     (if byte c = 0x91 \<or> byte c = 0x92 then [CHR 0x27]
      else if byte c = 0x93 \<or> byte c = 0x94 then [CHR 0x22]
      else if byte c = 0x96 \<or> byte c = 0x97 then ''-''
      else if byte c = 0x85 then ''...''
      else if byte c = 0x99 then ''(TM)''
      else ''?'')"

definition in_control_range :: "char \<Rightarrow> bool" where
  "in_control_range c \<longleftrightarrow> 0x80 \<le> byte c \<and> byte c \<le> 0x9F"

definition sanitize_byte :: "char \<Rightarrow> string" where
  "sanitize_byte c = (if in_control_range c then substitution c else [c])"

section \<open>The classifier of full scans\<close>

text \<open>
  The lambda \<open>isNonPlayerSpell\<close> of \<open>ScanSpellsToJson\<close>: a chain of early returns on the
  lower-cased identifier.
\<close>

definition isNonPlayerSpell :: "string \<Rightarrow> bool" where
  "isNonPlayerSpell editorId =
     (let lower = map tolower editorId in
      if find_str lower ''trap'' \<noteq> None then True
      else if take 2 lower = ''cr'' then True
      else if find_str lower ''altar'' \<noteq> None then True
      else if find_str lower ''shrine'' \<noteq> None then True
      else if find_str lower ''blessing'' \<noteq> None \<and> find_str lower ''spell'' \<noteq> None then True
      else if take 3 lower = ''dun'' then True
      else if take 4 lower = ''perk'' then True
      else if find_str lower ''hazard'' \<noteq> None then True
      else if take 5 lower = ''power'' then True
      else if take 4 lower = ''test'' then True
      else if length lower \<ge> 4 \<and> take 2 lower = ''mg''
              \<and> isdigit (lower ! 2) \<and> isdigit (lower ! 3) then True
      else if find_str lower ''mgr'' = Some 0 then True
      else if find_str lower ''voice'' \<noteq> None then True
      else if find_str lower ''teleport'' \<noteq> None \<and> find_str lower ''pet'' \<noteq> None then True
      else if find_str lower ''lefthand'' \<noteq> None then True
      else if find_str lower ''righthand'' \<noteq> None then True
      else if find_str lower ''copy'' \<noteq> None then True
      else False)"

text \<open>
  The classifier in the words of the specification: \<open>contains\<close> is "occurs somewhere in",
  \<open>starts_with\<close> is "is a prefix of", and the checks are a disjunction over the
  lower-cased identifier.
\<close>

definition contains :: "string \<Rightarrow> string \<Rightarrow> bool" where
  "contains s w \<longleftrightarrow> sublist w s"

definition starts_with :: "string \<Rightarrow> string \<Rightarrow> bool" where
  "starts_with s w \<longleftrightarrow> prefix w s"

definition mg_two_digits :: "string \<Rightarrow> bool" where
  "mg_two_digits s \<longleftrightarrow> (\<exists>d1 d2 rest. isdigit d1 \<and> isdigit d2 \<and> s = ''mg'' @ [d1, d2] @ rest)"

definition classifier_spec :: "string \<Rightarrow> bool" where
  "classifier_spec l \<longleftrightarrow>
     contains l ''trap'' \<or> starts_with l ''cr''
     \<or> contains l ''altar'' \<or> contains l ''shrine''
     \<or> (contains l ''blessing'' \<and> contains l ''spell'')
     \<or> starts_with l ''dun'' \<or> starts_with l ''perk'' \<or> contains l ''hazard''
     \<or> starts_with l ''power'' \<or> starts_with l ''test''
     \<or> mg_two_digits l \<or> starts_with l ''mgr''
     \<or> contains l ''voice'' \<or> (contains l ''teleport'' \<and> contains l ''pet'')
     \<or> contains l ''lefthand'' \<or> contains l ''righthand'' \<or> contains l ''copy''"

section \<open>Values of the host and of the JSON library\<close>

text \<open>
  A \<open>float\<close> of the program is an IEEE 754 binary32 value: a finite number, an infinity
  or a NaN. A finite value is kept as an integer mantissa \<open>m\<close> and an exponent \<open>e\<close>, and
  is the number \<open>m * 2 ^ e\<close>; the two zeros are one value. The host hands over binary32
  values, and every operation rounds its exact result to the nearest binary32 value, ties
  to the even mantissa, as the processor does in its default rounding mode.
\<close>

datatype float = Finite int int | PlusInfinity | MinusInfinity | NaN

definition dyadic :: "int \<Rightarrow> int \<Rightarrow> real" where
  "dyadic m e = (if e \<ge> 0 then of_int m * 2 ^ nat e else of_int m / 2 ^ nat (- e))"

definition finite_value :: "float \<Rightarrow> real option" where
  "finite_value x = (case x of Finite m e \<Rightarrow> Some (dyadic m e) | _ \<Rightarrow> None)"

text \<open>The number of binary digits of a natural number.\<close>

fun bit_length :: "nat \<Rightarrow> nat" where
  "bit_length n = (if n = 0 then 0 else Suc (bit_length (n div 2)))"

declare bit_length.simps [simp del]

text \<open>\<open>n / 2 ^ k\<close> rounded to the nearest natural number, a tie to the even one.\<close>

definition round_half_even :: "nat \<Rightarrow> nat \<Rightarrow> nat" where
  "round_half_even n k =
     (let q = n div 2 ^ k; r = n mod 2 ^ k
      in if 2 * r < 2 ^ k then q
         else if 2 * r > 2 ^ k then q + 1
         else if even q then q else q + 1)"

text \<open>
  The binary32 value nearest to \<open>m * 2 ^ e\<close>. A binary32 value has 24 significant binary
  digits and its smallest exponent is \<open>- 126\<close>, so the last digit kept has the weight
  \<open>2 ^ ulp\<close> below; a number that is a multiple of it is kept as it is, any other is
  rounded to a multiple of it. A result of magnitude \<open>2 ^ 128\<close> or more is an infinity.
\<close>

definition round_binary32 :: "int \<Rightarrow> int \<Rightarrow> float" where
  "round_binary32 m e =
     (if m = 0 then Finite 0 0
      else
        (let n = nat \<bar>m\<bar>;
             binade = int (bit_length n) - 1 + e;
             ulp = max binade (- 126) - 23;
             n' = (if ulp \<le> e then n else round_half_even n (nat (ulp - e)));
             e' = (if ulp \<le> e then e else ulp)
         in if dyadic (int n') e' \<ge> 2 ^ 128
            then (if m < 0 then MinusInfinity else PlusInfinity)
            else Finite (sgn m * int n') e'))"

text \<open>The conversion of an \<open>int\<close> to \<open>float\<close>, and the product of two floats.\<close>

definition float_of_int :: "int \<Rightarrow> float" where
  "float_of_int n = round_binary32 n 0"

definition float_sign :: "float \<Rightarrow> int" where
  "float_sign x =
     (case x of Finite m e \<Rightarrow> sgn m | PlusInfinity \<Rightarrow> 1 | MinusInfinity \<Rightarrow> - 1 | NaN \<Rightarrow> 0)"

definition float_mul :: "float \<Rightarrow> float \<Rightarrow> float" where
  "float_mul x y =
     (case (x, y) of
        (Finite m e, Finite m' e') \<Rightarrow> round_binary32 (m * m') (e + e')
      | _ \<Rightarrow>
          if x = NaN \<or> y = NaN \<or> float_sign x * float_sign y = 0 then NaN
          else if float_sign x * float_sign y > 0 then PlusInfinity
          else MinusInfinity)"

text \<open>The comparison \<open>x > y\<close>, false whenever an operand is a NaN.\<close>

definition float_gt :: "float \<Rightarrow> float \<Rightarrow> bool" where
  "float_gt x y =
     (case (x, y) of
        (Finite m e, Finite m' e') \<Rightarrow> dyadic m e > dyadic m' e'
      | (Finite m e, MinusInfinity) \<Rightarrow> True
      | (PlusInfinity, Finite m' e') \<Rightarrow> True
      | (PlusInfinity, MinusInfinity) \<Rightarrow> True
      | _ \<Rightarrow> False)"

text \<open>
  \<open>static_cast<int>\<close> of a float: the fractional part is discarded, which is truncation
  toward zero. C++ defines the conversion only where the truncated value is a value of
  \<open>int\<close>; for every other operand the value here is the one that the conversion
  instruction of x86-64 delivers, the most negative \<open>int\<close>.
\<close>

definition trunc_toward_zero :: "real \<Rightarrow> int" where
  "trunc_toward_zero q = (if q < 0 then - \<lfloor>- q\<rfloor> else \<lfloor>q\<rfloor>)"

definition INT_MIN :: int where
  "INT_MIN = - (2 ^ 31)"

definition INT_MAX :: int where
  "INT_MAX = 2 ^ 31 - 1"

definition float_to_int :: "float \<Rightarrow> int" where
  "float_to_int x =
     (case finite_value x of
        Some q \<Rightarrow>
          if INT_MIN \<le> trunc_toward_zero q \<and> trunc_toward_zero q \<le> INT_MAX
          then trunc_toward_zero q else INT_MIN
      | None \<Rightarrow> INT_MIN)"

text \<open>
  The functions of the program take the type of floats as the type variable \<open>'f\<close> and the
  operations they use on it as a \<open>float_ops\<close>: \<open>f_lit n\<close> is the float that the integer
  \<open>n\<close> converts to (the literal \<open>1000.0f\<close>, the operand \<open>100\<close> of \<open>effectiveness * 100\<close>),
  \<open>f_to_int\<close> is \<open>static_cast<int>\<close>. \<open>binary32_ops\<close> are the operations of the machine.
\<close>

record 'f float_ops =
  f_gt :: "'f \<Rightarrow> 'f \<Rightarrow> bool"
  f_mul :: "'f \<Rightarrow> 'f \<Rightarrow> 'f"
  f_lit :: "int \<Rightarrow> 'f"
  f_to_int :: "'f \<Rightarrow> int"

definition binary32_ops :: "float float_ops" where
  "binary32_ops = \<lparr> f_gt = float_gt, f_mul = float_mul, f_lit = float_of_int,
                     f_to_int = float_to_int \<rparr>"

text \<open>
  A value of \<open>nlohmann::json\<close>. An object is an association list written through
  \<open>AList.update\<close> (\<open>j[key] = v\<close>: replace the entry of the key, or add one) and read through
  \<open>map_of\<close>; an array grows at its end (\<open>push_back\<close>). Integers of either signedness are
  \<open>JInt\<close>.
\<close>

datatype 'f json =
    JNull
  | JBool bool
  | JInt int
  | JFloat 'f
  | JString string
  | JArray "'f json list"
  | JObject "(string \<times> 'f json) list"

type_synonym 'f jobject = "(string \<times> 'f json) list"

definition jset :: "string \<Rightarrow> 'f json \<Rightarrow> 'f jobject \<Rightarrow> 'f jobject" where
  "jset key v obj = AList.update key v obj"

definition jget :: "'f jobject \<Rightarrow> string \<Rightarrow> 'f json option" where
  "jget obj key = map_of obj key"

text \<open>\<open>j.contains(key)\<close> is false on every value that is not an object.\<close>

definition json_contains :: "'f json \<Rightarrow> string \<Rightarrow> bool" where
  "json_contains j key = (case j of JObject kvs \<Rightarrow> map_of kvs key \<noteq> None | _ \<Rightarrow> False)"

text \<open>\<open>j[key]\<close>, read only where \<open>j.contains(key)\<close> holds.\<close>

definition json_at :: "'f json \<Rightarrow> string \<Rightarrow> 'f json" where
  "json_at j key =
     (case j of JObject kvs \<Rightarrow> (case map_of kvs key of Some v \<Rightarrow> v | None \<Rightarrow> JNull)
      | _ \<Rightarrow> JNull)"

text \<open>The exceptions the code can meet; all derive from \<open>std::exception\<close>.\<close>

datatype exn = parse_error | type_error | invalid_argument | out_of_range

text \<open>\<open>get<bool>()\<close> and \<open>get<std::string>()\<close> throw a type error on any other kind of value.\<close>

definition get_bool :: "'f json \<Rightarrow> exn + bool" where
  "get_bool j = (case j of JBool b \<Rightarrow> Inr b | _ \<Rightarrow> Inl type_error)"

definition get_string :: "'f json \<Rightarrow> exn + string" where
  "get_string j = (case j of JString s \<Rightarrow> Inr s | _ \<Rightarrow> Inl type_error)"

type_synonym FormID = "32 word"

text \<open>
  The enumerations of the host that the code switches on; the last constructor of each
  stands for the values the \<open>switch\<close> leaves to \<open>default\<close>.
\<close>

datatype ActorValue =
  kNone | kAlteration | kConjuration | kDestruction | kIllusion | kRestoration
  | kOtherActorValue nat

datatype CastingType =
  kConstantEffect | kFireAndForget | kConcentration | kScroll | kOtherCastingType nat

datatype Delivery =
  kSelf | kTouch | kAimed | kTargetActor | kTargetLocation | kOtherDelivery nat

datatype SpellType = kSpell | kOtherSpellType nat

text \<open>
  The forms of the host catalog, with what the code reads of each. A pointer that the code
  tests for null is an \<open>option\<close>.
\<close>

record EffectSetting =
  es_fullName :: string
  es_magickSkill :: ActorValue
  es_minimumSkillLevel :: "32 word"
  es_magicItemDescription :: string

record 'f Effect =
  ei_magnitude :: 'f
  ei_duration :: "32 word"
  ei_area :: "32 word"
  baseEffect :: "EffectSetting option"

record BGSKeyword =
  keyword_editorID :: "string option"

record 'f SpellItem =
  spell_formID :: FormID
  spell_editorID :: "string option"
  spell_fullName :: string
  data_spellType :: SpellType
  data_castingType :: CastingType
  data_delivery :: Delivery
  data_chargeTime :: 'f
  CalculateMagickaCost :: 'f
  spell_effects :: "'f Effect option list"
  spell_keywords :: "BGSKeyword option list option"

record 'f TESObjectBOOK =
  book_formID :: FormID
  book_fullName :: string
  TeachesSpell :: bool
  GetSpell :: "'f SpellItem option"

record 'f TESDataHandler =
  allSpells :: "'f SpellItem option list"
  allBooks :: "'f TESObjectBOOK option list"
  LookupLoadedModByIndex :: "8 word \<Rightarrow> string option"
  LookupLoadedLightModByIndex :: "16 word \<Rightarrow> string option"

datatype 'f TESForm = Spell "'f SpellItem" | OtherForm

text \<open>The effectiveness subsystem, through the two operations the code calls.\<close>

record 'f SpellEffectivenessHook =
  IsEarlyLearnedSpell :: "FormID \<Rightarrow> bool"
  CalculateEffectiveness :: "FormID \<Rightarrow> 'f"

text \<open>
  What the code reaches through singletons and static lookups: the data handler and the
  effectiveness hook (either may be absent) and the lookup of a form by its identifier.
\<close>

record 'f host =
  dataHandler :: "'f TESDataHandler option"
  LookupByID :: "FormID \<Rightarrow> 'f TESForm option"
  effectivenessHook :: "'f SpellEffectivenessHook option"

section \<open>Configuration\<close>

record FieldConfig =
  editorId :: bool
  magickaCost :: bool
  minimumSkill :: bool
  castingType :: bool
  delivery :: bool
  chargeTime :: bool
  plugin :: bool
  effects :: bool
  effectNames :: bool
  "keywords" :: bool

record ScanConfig =
  cfg_fields :: FieldConfig
  treeRulesPrompt :: string

text \<open>The default member initialisers of the two structs.\<close>

definition default_FieldConfig :: FieldConfig where
  "default_FieldConfig = \<lparr> editorId = True, magickaCost = True, minimumSkill = False,
     castingType = False, delivery = False, chargeTime = False, plugin = False,
     effects = False, effectNames = False, keywords = False \<rparr>"

definition default_ScanConfig :: ScanConfig where
  "default_ScanConfig = \<lparr> cfg_fields = default_FieldConfig, treeRulesPrompt = [] \<rparr>"

text \<open>
  The \<open>try\<close> block of \<open>ParseScanConfig\<close> assigns to \<open>config\<close> statement by statement, and
  an exception leaves \<open>config\<close> as the statements before it made it. The state of the block
  is therefore \<open>config\<close> together with the exception in flight, if any; a statement runs
  only while there is none.
\<close>

type_synonym try_state = "ScanConfig \<times> exn option"

definition run :: "(ScanConfig \<Rightarrow> exn + ScanConfig) \<Rightarrow> try_state \<Rightarrow> try_state" where
  "run stmt st =
     (case st of
        (config, Some e) \<Rightarrow> (config, Some e)
      | (config, None) \<Rightarrow>
          (case stmt config of Inl e \<Rightarrow> (config, Some e) | Inr config' \<Rightarrow> (config', None)))"

text \<open>\<open>if (f.contains(key)) config.fields.<flag> = f[key].get<bool>();\<close>\<close>

definition read_flag ::
  "'f json \<Rightarrow> string \<Rightarrow> (bool \<Rightarrow> FieldConfig \<Rightarrow> FieldConfig) \<Rightarrow> ScanConfig \<Rightarrow> exn + ScanConfig" where
  "read_flag f key assign config =
     (if json_contains f key then
        (case get_bool (json_at f key) of
           Inl e \<Rightarrow> Inl e
         | Inr b \<Rightarrow> Inr (config\<lparr>cfg_fields := assign b (cfg_fields config)\<rparr>))
      else Inr config)"

text \<open>The ten statements on the \<open>fields\<close> object \<open>f\<close>, in the order of the source.\<close>

definition read_fields :: "'f json \<Rightarrow> try_state \<Rightarrow> try_state" where
  "read_fields f st =
     (run (read_flag f ''keywords'' (\<lambda>b c. c\<lparr>keywords := b\<rparr>))
     (run (read_flag f ''effectNames'' (\<lambda>b c. c\<lparr>effectNames := b\<rparr>))
     (run (read_flag f ''effects'' (\<lambda>b c. c\<lparr>effects := b\<rparr>))
     (run (read_flag f ''plugin'' (\<lambda>b c. c\<lparr>plugin := b\<rparr>))
     (run (read_flag f ''chargeTime'' (\<lambda>b c. c\<lparr>chargeTime := b\<rparr>))
     (run (read_flag f ''delivery'' (\<lambda>b c. c\<lparr>delivery := b\<rparr>))
     (run (read_flag f ''castingType'' (\<lambda>b c. c\<lparr>castingType := b\<rparr>))
     (run (read_flag f ''minimumSkill'' (\<lambda>b c. c\<lparr>minimumSkill := b\<rparr>))
     (run (read_flag f ''magickaCost'' (\<lambda>b c. c\<lparr>magickaCost := b\<rparr>))
     (run (read_flag f ''editorId'' (\<lambda>b c. c\<lparr>editorId := b\<rparr>)) st))))))))))"

text \<open>\<open>if (j.contains("treeRulesPrompt")) config.treeRulesPrompt = j[...].get<std::string>();\<close>\<close>

definition read_prompt :: "'f json \<Rightarrow> ScanConfig \<Rightarrow> exn + ScanConfig" where
  "read_prompt j config =
     (if json_contains j ''treeRulesPrompt'' then
        (case get_string (json_at j ''treeRulesPrompt'') of
           Inl e \<Rightarrow> Inl e
         | Inr s \<Rightarrow> Inr (config\<lparr>treeRulesPrompt := s\<rparr>))
      else Inr config)"

text \<open>The statements of the \<open>try\<close> block after \<open>json::parse\<close> has returned \<open>j\<close>.\<close>

definition read_document :: "'f json \<Rightarrow> try_state \<Rightarrow> try_state" where
  "read_document j st =
     run (read_prompt j)
       (if json_contains j ''fields'' then read_fields (json_at j ''fields'') st else st)"

text \<open>
  \<open>ParseScanConfig\<close>. The parser of the JSON library is the parameter \<open>parse\<close>: \<open>None\<close>
  where \<open>json::parse\<close> throws its parse error. The \<open>catch\<close> clause logs and falls through
  to \<open>return config\<close>, so the result is the first component of the final state whether or
  not an exception was raised.
\<close>

definition try_block :: "(string \<Rightarrow> 'f json option) \<Rightarrow> string \<Rightarrow> ScanConfig \<Rightarrow> try_state" where
  "try_block parse jsonConfig config =
     (case parse jsonConfig of
        None \<Rightarrow> (config, Some parse_error)
      | Some j \<Rightarrow> read_document j (config, None))"

definition ParseScanConfig :: "(string \<Rightarrow> 'f json option) \<Rightarrow> string \<Rightarrow> ScanConfig" where
  "ParseScanConfig parse jsonConfig =
     (let config = default_ScanConfig in
      if jsonConfig = [] then config
      else fst (try_block parse jsonConfig config))"

text \<open>
  The configuration in the words of the specification. The ten recognised keys of the
  \<open>fields\<close> object, each with the flag it sets; a flag key is present in a document when
  the document has a \<open>fields\<close> entry that has the key; two documents have the same known
  keys when they agree on \<open>treeRulesPrompt\<close>, on having \<open>fields\<close>, and on the ten keys of
  \<open>fields\<close>.
\<close>

definition flag_table :: "(string \<times> (FieldConfig \<Rightarrow> bool)) list" where
  "flag_table =
     [(''editorId'', editorId), (''magickaCost'', magickaCost), (''minimumSkill'', minimumSkill),
      (''castingType'', castingType), (''delivery'', delivery), (''chargeTime'', chargeTime),
      (''plugin'', plugin), (''effects'', effects), (''effectNames'', effectNames),
      (''keywords'', keywords)]"

definition flag_present :: "'f json \<Rightarrow> string \<Rightarrow> bool" where
  "flag_present j key \<longleftrightarrow>
     json_contains j ''fields'' \<and> json_contains (json_at j ''fields'') key"

definition same_entry :: "'f json \<Rightarrow> 'f json \<Rightarrow> string \<Rightarrow> bool" where
  "same_entry j j' key \<longleftrightarrow>
     json_contains j key = json_contains j' key \<and> json_at j key = json_at j' key"

definition same_known_keys :: "'f json \<Rightarrow> 'f json \<Rightarrow> bool" where
  "same_known_keys j j' \<longleftrightarrow>
     same_entry j j' ''treeRulesPrompt''
     \<and> json_contains j ''fields'' = json_contains j' ''fields''
     \<and> list_all (\<lambda>key. same_entry (json_at j ''fields'') (json_at j' ''fields'') key)
          (map fst flag_table)"

text \<open>
  Two configuration documents and a parser that knows them: one sets only
  \<open>fields.keywords\<close>, the other gives \<open>fields.magickaCost\<close> a string where a boolean is
  expected, after a well-typed \<open>fields.editorId\<close>.
\<close>

definition quoted :: "string \<Rightarrow> string" where
  "quoted s = CHR 0x22 # s @ [CHR 0x22]"

definition keywords_only_text :: string where
  "keywords_only_text = ''{'' @ quoted ''fields'' @ '':{'' @ quoted ''keywords'' @ '':true}}''"

definition keywords_only :: "float json" where
  "keywords_only = JObject [(''fields'', JObject [(''keywords'', JBool True)])]"

definition ill_typed_text :: string where
  "ill_typed_text = ''{'' @ quoted ''fields'' @ '':{'' @ quoted ''editorId'' @ '':false,''
     @ quoted ''magickaCost'' @ '':'' @ quoted ''yes'' @ ''}}''"

definition ill_typed :: "float json" where
  "ill_typed = JObject [(''fields'', JObject [(''editorId'', JBool False),
                                              (''magickaCost'', JString ''yes'')])]"

definition example_parse :: "string \<Rightarrow> float json option" where
  "example_parse text =
     (if text = keywords_only_text then Some keywords_only
      else if text = ill_typed_text then Some ill_typed
      else None)"

section \<open>Helper functions\<close>

definition GetSchoolName :: "ActorValue \<Rightarrow> string" where
  "GetSchoolName school =
     (case school of
        kAlteration \<Rightarrow> ''Alteration''
      | kConjuration \<Rightarrow> ''Conjuration''
      | kDestruction \<Rightarrow> ''Destruction''
      | kIllusion \<Rightarrow> ''Illusion''
      | kRestoration \<Rightarrow> ''Restoration''
      | _ \<Rightarrow> ''Unknown'')"

definition GetCastingTypeName :: "CastingType \<Rightarrow> string" where
  "GetCastingTypeName type =
     (case type of
        kConstantEffect \<Rightarrow> ''Constant Effect''
      | kFireAndForget \<Rightarrow> ''Fire and Forget''
      | kConcentration \<Rightarrow> ''Concentration''
      | kScroll \<Rightarrow> ''Scroll''
      | _ \<Rightarrow> ''Unknown'')"

definition GetDeliveryName :: "Delivery \<Rightarrow> string" where
  "GetDeliveryName d =
     (case d of
        kSelf \<Rightarrow> ''Self''
      | kTouch \<Rightarrow> ''Touch''
      | kAimed \<Rightarrow> ''Aimed''
      | kTargetActor \<Rightarrow> ''Target Actor''
      | kTargetLocation \<Rightarrow> ''Target Location''
      | _ \<Rightarrow> ''Unknown'')"

definition GetSkillLevelName :: "32 word \<Rightarrow> string" where
  "GetSkillLevelName minSkill =
     (if minSkill < 25 then ''Novice''
      else if minSkill < 50 then ''Apprentice''
      else if minSkill < 75 then ''Adept''
      else if minSkill < 100 then ''Expert''
      else ''Master'')"

definition GetPluginName :: "'f TESDataHandler option \<Rightarrow> FormID \<Rightarrow> string" where
  "GetPluginName handler formId =
     (case handler of
        None \<Rightarrow> ''Unknown''
      | Some dh \<Rightarrow>
          (let modIndex = (ucast (drop_bit 24 formId AND 0xFF) :: 8 word) in
           if modIndex = 0xFE then
             (let lightIndex = (ucast (drop_bit 12 formId AND 0xFFF) :: 16 word) in
              case LookupLoadedLightModByIndex dh lightIndex of
                Some fileName \<Rightarrow> fileName
              | None \<Rightarrow> ''Unknown'')
           else
             (case LookupLoadedModByIndex dh modIndex of
                Some fileName \<Rightarrow> fileName
              | None \<Rightarrow> ''Unknown'')))"

section \<open>Rendering and parsing a form identifier\<close>

text \<open>
  \<open>std::format("0x{:08X}", formId)\<close>: the upper-case hexadecimal digits of the value, most
  significant first, padded with zeros on the left to a width of eight.
\<close>

definition hex_digit_upper :: "nat \<Rightarrow> char" where
  "hex_digit_upper d = (if d < 10 then char_of (48 + d) else char_of (55 + d))"

fun hex_upper :: "nat \<Rightarrow> string" where
  "hex_upper n =
     (if n < 16 then [hex_digit_upper n]
      else hex_upper (n div 16) @ [hex_digit_upper (n mod 16)])"

declare hex_upper.simps [simp del]

definition pad_left :: "nat \<Rightarrow> char \<Rightarrow> string \<Rightarrow> string" where
  "pad_left width c s = replicate (width - length s) c @ s"

definition format_formId :: "FormID \<Rightarrow> string" where
  "format_formId formId = ''0x'' @ pad_left 8 (CHR ''0'') (hex_upper (unat formId))"

text \<open>The eight digits of a rendered identifier, and the upper-case hexadecimal digits.\<close>

definition digits8 :: "FormID \<Rightarrow> string" where
  "digits8 v = pad_left 8 (CHR ''0'') (hex_upper (unat v))"

definition upper_hex :: "char \<Rightarrow> bool" where
  "upper_hex c \<longleftrightarrow> (48 \<le> byte c \<and> byte c \<le> 57) \<or> (65 \<le> byte c \<and> byte c \<le> 70)"

text \<open>
  \<open>std::stoul(s, nullptr, 16)\<close> on a string of hexadecimal digits: it throws
  \<open>invalid_argument\<close> when there is no digit to convert and \<open>out_of_range\<close> when the value
  does not fit \<open>unsigned long\<close> (32 bits on the platform of the plugin). White space, a sign
  and a \<open>0x\<close> prefix, which \<open>stoul\<close> would skip, cannot occur where the code calls it:
  every character has passed \<open>isxdigit\<close>.
\<close>

definition hex_value :: "char \<Rightarrow> nat" where
  "hex_value c =
     (if byte c \<le> 57 then byte c - 48
      else if byte c \<le> 70 then byte c - 55
      else byte c - 87)"

definition ULONG_MAX :: nat where
  "ULONG_MAX = 2 ^ 32 - 1"

definition hex_number :: "string \<Rightarrow> nat" where
  "hex_number digits = foldl (\<lambda>acc c. 16 * acc + hex_value c) 0 digits"

definition stoul :: "string \<Rightarrow> exn + nat" where
  "stoul s =
     (let digits = takeWhile isxdigit s in
      if digits = [] then Inl invalid_argument
      else
        (let v = hex_number digits in
         if v > ULONG_MAX then Inl out_of_range else Inr v))"

text \<open>What \<open>GetSpellInfoByFormId\<close> writes to the log.\<close>

datatype log_event =
    warn_too_long
  | error_invalid_hex
  | error_invalid_format
  | warn_form_not_found
  | warn_not_a_spell

text \<open>
  The first \<open>try\<close> block of \<open>GetSpellInfoByFormId\<close>: the removal of the prefix, then the
  truncation, the loop over the characters and the conversion. The result is \<open>None\<close> where
  the function returns the empty string, from the loop or from the \<open>catch\<close> clause.
\<close>

definition strip_0x :: "string \<Rightarrow> string" where
  "strip_0x cleanId =
     (if length cleanId \<ge> 2 \<and> (take 2 cleanId = ''0x'' \<or> take 2 cleanId = ''0X'')
      then drop 2 cleanId else cleanId)"

definition parse_formId :: "string \<Rightarrow> log_event list \<times> FormID option" where
  "parse_formId formIdStr =
     (let cleanId = strip_0x formIdStr;
          tooLong = (length cleanId > 8);
          logged = (if tooLong then [warn_too_long] else []);
          cleanId = (if tooLong then take 8 cleanId else cleanId)
      in
        if \<not> list_all isxdigit cleanId then (logged @ [error_invalid_hex], None)
        else
          (case stoul cleanId of
             Inl e \<Rightarrow> (logged @ [error_invalid_format], None)
           | Inr v \<Rightarrow> (logged, Some (word_of_nat v))))"

section \<open>The records of a scan\<close>

text \<open>School and minimum skill, read from the first effect only.\<close>

definition first_effect_school :: "'f SpellItem \<Rightarrow> ActorValue \<times> 32 word" where
  "first_effect_school spell =
     (case spell_effects spell of
        [] \<Rightarrow> (kNone, 0)
      | firstEffect # _ \<Rightarrow>
          (case firstEffect of
             None \<Rightarrow> (kNone, 0)
           | Some e \<Rightarrow>
               (case baseEffect e of
                  None \<Rightarrow> (kNone, 0)
                | Some b \<Rightarrow> (es_magickSkill b, es_minimumSkillLevel b))))"

text \<open>
  The three loops that both scans repeat word for word: the effect sub-records, the
  effect names and the keywords.
\<close>

definition effect_record :: "'f Effect \<Rightarrow> EffectSetting \<Rightarrow> 'f jobject" where
  "effect_record e b =
     (let effectJson = jset ''name'' (JString (SanitizeToUTF8 (es_fullName b))) [];
          effectJson = jset ''magnitude'' (JFloat (ei_magnitude e)) effectJson;
          effectJson = jset ''duration'' (JInt (uint (ei_duration e))) effectJson;
          effectJson = jset ''area'' (JInt (uint (ei_area e))) effectJson;
          description = es_magicItemDescription b
      in if description \<noteq> []
         then jset ''description'' (JString (SanitizeToUTF8 description)) effectJson
         else effectJson)"

definition effects_array :: "'f Effect option list \<Rightarrow> 'f json list" where
  "effects_array es =
     foldl (\<lambda>effectsArray effect.
              case effect of
                None \<Rightarrow> effectsArray
              | Some e \<Rightarrow>
                  (case baseEffect e of
                     None \<Rightarrow> effectsArray
                   | Some b \<Rightarrow> effectsArray @ [JObject (effect_record e b)]))
       [] es"

definition effect_names_array :: "'f Effect option list \<Rightarrow> 'f json list" where
  "effect_names_array es =
     foldl (\<lambda>effectNamesArray effect.
              case effect of
                None \<Rightarrow> effectNamesArray
              | Some e \<Rightarrow>
                  (case baseEffect e of
                     None \<Rightarrow> effectNamesArray
                   | Some b \<Rightarrow> effectNamesArray @ [JString (SanitizeToUTF8 (es_fullName b))]))
       [] es"

definition keywords_array :: "BGSKeyword option list \<Rightarrow> 'f json list" where
  "keywords_array kws =
     foldl (\<lambda>keywordsArray kw.
              case kw of
                None \<Rightarrow> keywordsArray
              | Some k \<Rightarrow>
                  (case keyword_editorID k of
                     None \<Rightarrow> keywordsArray
                   | Some kwEditorId \<Rightarrow>
                       if kwEditorId \<noteq> [] then keywordsArray @ [JString kwEditorId]
                       else keywordsArray))
       [] kws"

text \<open>
  The optional fields from \<open>magickaCost\<close> on, the same statements in both scans;
  \<open>set_if flag key v\<close> is the statement \<open>if (flag) spellJson[key] = v;\<close>. The plugin name
  is looked up through the data handler that the scan already holds.
\<close>

definition set_if :: "bool \<Rightarrow> string \<Rightarrow> 'f json \<Rightarrow> 'f jobject \<Rightarrow> 'f jobject" where
  "set_if flag key v spellJson = (if flag then jset key v spellJson else spellJson)"

definition optional_fields ::
  "'f TESDataHandler \<Rightarrow> FieldConfig \<Rightarrow> 'f SpellItem \<Rightarrow> 32 word \<Rightarrow> 'f jobject \<Rightarrow> 'f jobject" where
  "optional_fields dh flds spell minSkill spellJson =
     (let spellJson = set_if (magickaCost flds) ''magickaCost''
                        (JFloat (CalculateMagickaCost spell)) spellJson;
          spellJson = set_if (minimumSkill flds) ''minimumSkill''
                        (JInt (uint minSkill)) spellJson;
          spellJson = set_if (castingType flds) ''castingType''
                        (JString (GetCastingTypeName (data_castingType spell))) spellJson;
          spellJson = set_if (delivery flds) ''delivery''
                        (JString (GetDeliveryName (data_delivery spell))) spellJson;
          spellJson = set_if (chargeTime flds) ''chargeTime''
                        (JFloat (data_chargeTime spell)) spellJson;
          spellJson = set_if (plugin flds) ''plugin''
                        (JString (GetPluginName (Some dh) (spell_formID spell))) spellJson;
          spellJson = (if effects flds
                       then jset ''effects'' (JArray (effects_array (spell_effects spell))) spellJson
                       else set_if (effectNames flds) ''effectNames''
                              (JArray (effect_names_array (spell_effects spell))) spellJson)
      in case spell_keywords spell of
           None \<Rightarrow> spellJson
         | Some kws \<Rightarrow>
             set_if (keywords flds) ''keywords'' (JArray (keywords_array kws)) spellJson)"

text \<open>The four essential fields, the same statements in both scans.\<close>

definition essential_fields ::
  "FormID \<Rightarrow> string \<Rightarrow> ActorValue \<Rightarrow> 32 word \<Rightarrow> 'f jobject" where
  "essential_fields formId name school minSkill =
     (let spellJson = jset ''formId'' (JString (format_formId formId)) [];
          spellJson = jset ''name'' (JString (SanitizeToUTF8 name)) spellJson;
          spellJson = jset ''school'' (JString (GetSchoolName school)) spellJson
      in jset ''skillLevel'' (JString (GetSkillLevelName minSkill)) spellJson)"

section \<open>ScanSpellsToJson\<close>

record 'f full_scan =
  spellArray :: "'f json list"
  scannedCount :: int
  skippedCount :: int
  filteredCount :: int

definition skipped :: "'f full_scan \<Rightarrow> 'f full_scan" where
  "skipped st = st\<lparr>skippedCount := skippedCount st + 1\<rparr>"

definition filtered :: "'f full_scan \<Rightarrow> 'f full_scan" where
  "filtered st = st\<lparr>filteredCount := filteredCount st + 1\<rparr>"

text \<open>The test inside the loop that looks for an effect with a real name.\<close>

definition effect_has_real_name :: "'f Effect option \<Rightarrow> bool" where
  "effect_has_real_name effect =
     (case effect of
        None \<Rightarrow> False
      | Some e \<Rightarrow>
          (case baseEffect e of
             None \<Rightarrow> False
           | Some b \<Rightarrow>
               (let effectName = es_fullName b in
                effectName \<noteq> [] \<and> length effectName > 2
                \<and> take 2 effectName \<noteq> ''0x'' \<and> take 2 effectName \<noteq> ''0X'')))"

definition full_scan_record ::
  "'f TESDataHandler \<Rightarrow> FieldConfig \<Rightarrow> 'f SpellItem \<Rightarrow> string \<Rightarrow> ActorValue \<Rightarrow> 32 word
     \<Rightarrow> 'f jobject" where
  "full_scan_record dh flds spell editorIdStr school minSkill =
     (let spellJson = essential_fields (spell_formID spell) (spell_fullName spell) school minSkill;
          spellJson = (if editorId flds then jset ''editorId'' (JString editorIdStr) spellJson
                       else spellJson)
      in optional_fields dh flds spell minSkill spellJson)"

text \<open>
  The body of the loop over the spell forms; every \<open>continue\<close> is a branch that returns
  the state, with or without a counter advanced.
\<close>

definition scan_spell ::
  "'f float_ops \<Rightarrow> 'f TESDataHandler \<Rightarrow> FieldConfig \<Rightarrow> 'f full_scan \<Rightarrow> 'f SpellItem option
     \<Rightarrow> 'f full_scan" where
  "scan_spell ops dh flds st entry =
     (case entry of
        None \<Rightarrow> st
      | Some spell \<Rightarrow>
          if data_spellType spell \<noteq> kSpell then skipped st
          else
            (let name = spell_fullName spell;
                 editorIdStr = (case spell_editorID spell of None \<Rightarrow> [] | Some s \<Rightarrow> s)
             in
               if name = [] \<or> spell_editorID spell = None \<or> editorIdStr = [] then skipped st
               else if length name \<ge> 2 \<and> (take 2 name = ''0x'' \<or> take 2 name = ''0X'')
                 then filtered st
               else if list_all (\<lambda>c. isxdigit c \<or> c = CHR '' '') name \<and> length name \<ge> 6
                 then filtered st
               else if isNonPlayerSpell editorIdStr then filtered st
               else
                 (case first_effect_school spell of
                    (school, minSkill) \<Rightarrow>
                      if school = kNone then skipped st
                      else if f_gt ops (CalculateMagickaCost spell) (f_lit ops 1000)
                        then filtered st
                      else if \<not> list_ex effect_has_real_name (spell_effects spell)
                        then filtered st
                      else
                        st\<lparr>spellArray := spellArray st
                              @ [JObject (full_scan_record dh flds spell editorIdStr school minSkill)],
                           scannedCount := scannedCount st + 1\<rparr>)))"

definition full_scan_loop ::
  "'f float_ops \<Rightarrow> 'f TESDataHandler \<Rightarrow> FieldConfig \<Rightarrow> 'f full_scan" where
  "full_scan_loop ops dh flds =
     foldl (scan_spell ops dh flds)
       \<lparr> spellArray = [], scannedCount = 0, skippedCount = 0, filteredCount = 0 \<rparr>
       (allSpells dh)"

definition ScanSpellsToJson ::
  "'f float_ops \<Rightarrow> 'f TESDataHandler option \<Rightarrow> FieldConfig \<Rightarrow> 'f json" where
  "ScanSpellsToJson ops handler flds =
     (case handler of
        None \<Rightarrow> JArray []
      | Some dh \<Rightarrow> JArray (spellArray (full_scan_loop ops dh flds)))"

section \<open>ScanSpellTomes\<close>

record 'f tome_scan =
  tomeArray :: "'f json list"
  seenSpellIds :: "FormID set"
  tomeCount :: int
  skippedDuplicates :: int

definition tome_record ::
  "'f TESDataHandler \<Rightarrow> FieldConfig \<Rightarrow> 'f TESObjectBOOK \<Rightarrow> 'f SpellItem \<Rightarrow> ActorValue \<Rightarrow> 32 word
     \<Rightarrow> 'f jobject" where
  "tome_record dh flds book spell school minSkill =
     (let spellJson = essential_fields (spell_formID spell) (spell_fullName spell) school minSkill;
          spellJson = jset ''tomeFormId'' (JString (format_formId (book_formID book))) spellJson;
          spellJson = jset ''tomeName'' (JString (SanitizeToUTF8 (book_fullName book))) spellJson;
          spellJson = (case spell_editorID spell of
                         None \<Rightarrow> spellJson
                       | Some spellEditorId \<Rightarrow>
                           if editorId flds then jset ''editorId'' (JString spellEditorId) spellJson
                           else spellJson)
      in optional_fields dh flds spell minSkill spellJson)"

text \<open>
  The body of the loop over the book forms. The identifier of the taught spell enters
  \<open>seenSpellIds\<close> before the name and the school are looked at.
\<close>

definition scan_book ::
  "'f TESDataHandler \<Rightarrow> FieldConfig \<Rightarrow> 'f tome_scan \<Rightarrow> 'f TESObjectBOOK option \<Rightarrow> 'f tome_scan" where
  "scan_book dh flds st entry =
     (case entry of
        None \<Rightarrow> st
      | Some book \<Rightarrow>
          if \<not> TeachesSpell book then st
          else
            (case GetSpell book of
               None \<Rightarrow> st
             | Some spell \<Rightarrow>
                 (let spellFormId = spell_formID spell in
                  if spellFormId \<in> seenSpellIds st
                    then st\<lparr>skippedDuplicates := skippedDuplicates st + 1\<rparr>
                  else
                    (let st = st\<lparr>seenSpellIds := insert spellFormId (seenSpellIds st)\<rparr>;
                         spellName = spell_fullName spell
                     in
                       if spellName = [] then st
                       else
                         (case first_effect_school spell of
                            (school, minSkill) \<Rightarrow>
                              if school = kNone then st
                              else
                                st\<lparr>tomeArray := tomeArray st
                                      @ [JObject (tome_record dh flds book spell school minSkill)],
                                   tomeCount := tomeCount st + 1\<rparr>)))))"

definition tome_scan_loop :: "'f TESDataHandler \<Rightarrow> FieldConfig \<Rightarrow> 'f tome_scan" where
  "tome_scan_loop dh flds =
     foldl (scan_book dh flds)
       \<lparr> tomeArray = [], seenSpellIds = {}, tomeCount = 0, skippedDuplicates = 0 \<rparr>
       (allBooks dh)"

text \<open>
  The prompt of a scan document. \<open>systemInstructions\<close> is the fixed text that
  \<open>GetSystemInstructions\<close> returns.
\<close>

definition combined_prompt :: "string \<Rightarrow> ScanConfig \<Rightarrow> string" where
  "combined_prompt systemInstructions config =
     (if treeRulesPrompt config \<noteq> []
      then ''## TREE CREATION RULES'' @ [CHR 0x0A, CHR 0x0A] @ treeRulesPrompt config
             @ [CHR 0x0A, CHR 0x0A]
      else []) @ systemInstructions"

text \<open>
  \<open>ScanSpellTomes\<close> returns the text \<open>output.dump(2)\<close>; the model returns the value
  \<open>output\<close> that is serialised, which is the empty object where the function returns
  \<open>"{}"\<close>. \<open>timestamp\<close> is the rendering of the system clock.
\<close>

definition ScanSpellTomes ::
  "string \<Rightarrow> string \<Rightarrow> 'f TESDataHandler option \<Rightarrow> ScanConfig \<Rightarrow> 'f json" where
  "ScanSpellTomes systemInstructions timestamp handler config =
     (case handler of
        None \<Rightarrow> JObject []
      | Some dh \<Rightarrow>
          (let final = tome_scan_loop dh (cfg_fields config);
               output = jset ''scanTimestamp'' (JString timestamp) [];
               output = jset ''scanMode'' (JString ''spell_tomes'') output;
               output = jset ''spellCount'' (JInt (int (length (tomeArray final)))) output;
               output = jset ''spells'' (JArray (tomeArray final)) output;
               output = jset ''llmPrompt''
                          (JString (combined_prompt systemInstructions config)) output
           in JObject output))"

section \<open>GetSpellInfoByFormId\<close>

text \<open>
  The result of \<open>GetSpellInfoByFormId\<close>: the empty string, or the text \<open>spellInfo.dump()\<close>
  of a document, modelled by the document that is serialised. The serialiser of the JSON
  library is not modelled.
\<close>

datatype 'f lookup_result = EmptyString | Document "'f jobject"

text \<open>The loop that fills \<open>effectsArray\<close>, \<open>effectNamesArray\<close> and \<open>description\<close>.\<close>

definition info_effect ::
  "'f json list \<times> 'f json list \<times> string \<Rightarrow> 'f Effect option
     \<Rightarrow> 'f json list \<times> 'f json list \<times> string" where
  "info_effect acc effect =
     (case acc of
        (effectsArray, effectNamesArray, description) \<Rightarrow>
          (case effect of
             None \<Rightarrow> acc
           | Some e \<Rightarrow>
               (case baseEffect e of
                  None \<Rightarrow> acc
                | Some b \<Rightarrow>
                    (let effectName = SanitizeToUTF8 (es_fullName b);
                         effectNamesArray = effectNamesArray @ [JString effectName];
                         effectJson = jset ''name'' (JString effectName) [];
                         effectJson = jset ''magnitude'' (JFloat (ei_magnitude e)) effectJson;
                         effectJson = jset ''duration'' (JInt (uint (ei_duration e))) effectJson;
                         effectJson = jset ''area'' (JInt (uint (ei_area e))) effectJson;
                         desc = es_magicItemDescription b
                     in
                       if desc \<noteq> [] then
                         (let descSanitized = SanitizeToUTF8 desc;
                              effectJson = jset ''description'' (JString descSanitized) effectJson;
                              description = (if description = [] then descSanitized
                                             else description)
                          in (effectsArray @ [JObject effectJson], effectNamesArray, description))
                       else (effectsArray @ [JObject effectJson], effectNamesArray, description)))))"

text \<open>The loop that fills \<open>scaledEffectsArray\<close>.\<close>

definition scaled_effects :: "'f float_ops \<Rightarrow> 'f \<Rightarrow> 'f Effect option list \<Rightarrow> 'f json list" where
  "scaled_effects ops effectiveness es =
     foldl (\<lambda>scaledEffectsArray effect.
              case effect of
                None \<Rightarrow> scaledEffectsArray
              | Some e \<Rightarrow>
                  (case baseEffect e of
                     None \<Rightarrow> scaledEffectsArray
                   | Some b \<Rightarrow>
                       (let scaledEffect =
                              jset ''name'' (JString (SanitizeToUTF8 (es_fullName b))) [];
                            scaledEffect =
                              jset ''originalMagnitude'' (JFloat (ei_magnitude e)) scaledEffect;
                            scaledEffect =
                              jset ''scaledMagnitude''
                                (JInt (f_to_int ops (f_mul ops (ei_magnitude e) effectiveness)))
                                scaledEffect;
                            scaledEffect =
                              jset ''duration'' (JInt (uint (ei_duration e))) scaledEffect
                        in scaledEffectsArray @ [JObject scaledEffect])))
       [] es"

text \<open>The document of a spell, from \<open>json spellInfo;\<close> to the statement before \<open>dump\<close>.\<close>

definition spell_info ::
  "'f float_ops \<Rightarrow> 'f host \<Rightarrow> string \<Rightarrow> FormID \<Rightarrow> 'f SpellItem \<Rightarrow> 'f jobject" where
  "spell_info ops h formIdStr formId spell =
     (let spellInfo = jset ''formId'' (JString formIdStr) [];
          spellInfo = jset ''name'' (JString (SanitizeToUTF8 (spell_fullName spell))) spellInfo;
          spellInfo = jset ''editorId''
                        (JString (case spell_editorID spell of Some s \<Rightarrow> s | None \<Rightarrow> []))
                        spellInfo;
          (school, level, minSkill) =
             (case spell_effects spell of
                [] \<Rightarrow> (''Unknown'', ''Unknown'', 0)
              | firstEffect # _ \<Rightarrow>
                  (case firstEffect of
                     None \<Rightarrow> (''Unknown'', ''Unknown'', 0)
                   | Some e \<Rightarrow>
                       (case baseEffect e of
                          None \<Rightarrow> (''Unknown'', ''Unknown'', 0)
                        | Some b \<Rightarrow>
                            (GetSchoolName (es_magickSkill b),
                             GetSkillLevelName (es_minimumSkillLevel b),
                             es_minimumSkillLevel b))));
          spellInfo = jset ''school'' (JString school) spellInfo;
          spellInfo = jset ''level'' (JString level) spellInfo;
          spellInfo = jset ''skillLevel'' (JString level) spellInfo;
          spellInfo = jset ''minimumSkill'' (JInt (uint minSkill)) spellInfo;
          spellInfo = jset ''cost'' (JFloat (CalculateMagickaCost spell)) spellInfo;
          spellInfo = jset ''magickaCost'' (json_at (JObject spellInfo) ''cost'') spellInfo;
          spellInfo = jset ''type'' (JString (GetCastingTypeName (data_castingType spell))) spellInfo;
          spellInfo = jset ''castingType'' (json_at (JObject spellInfo) ''type'') spellInfo;
          spellInfo = jset ''delivery'' (JString (GetDeliveryName (data_delivery spell))) spellInfo;
          spellInfo = jset ''chargeTime'' (JFloat (data_chargeTime spell)) spellInfo;
          spellInfo = jset ''plugin'' (JString (GetPluginName (dataHandler h) formId)) spellInfo;
          (effectsArray, effectNamesArray, description) =
             foldl info_effect ([], [], []) (spell_effects spell);
          spellInfo = jset ''effects'' (JArray effectsArray) spellInfo;
          spellInfo = jset ''effectNames'' (JArray effectNamesArray) spellInfo;
          spellInfo = jset ''description'' (JString description) spellInfo
      in
        case effectivenessHook h of
          None \<Rightarrow>
            jset ''effectiveness'' (JInt 100) (jset ''isWeakened'' (JBool False) spellInfo)
        | Some hook \<Rightarrow>
            if IsEarlyLearnedSpell hook formId then
              (let effectiveness = CalculateEffectiveness hook formId;
                   spellInfo = jset ''isWeakened'' (JBool True) spellInfo;
                   spellInfo = jset ''effectiveness''
                                 (JInt (f_to_int ops (f_mul ops effectiveness (f_lit ops 100))))
                                 spellInfo
               in jset ''scaledEffects''
                    (JArray (scaled_effects ops effectiveness (spell_effects spell))) spellInfo)
            else
              jset ''effectiveness'' (JInt 100) (jset ''isWeakened'' (JBool False) spellInfo))"

text \<open>
  \<open>GetSpellInfoByFormId\<close>, with what it logs on the way. \<open>form->As<RE::SpellItem>()\<close> is
  the case distinction on the form.
\<close>

definition GetSpellInfoByFormId ::
  "'f float_ops \<Rightarrow> 'f host \<Rightarrow> string \<Rightarrow> log_event list \<times> 'f lookup_result" where
  "GetSpellInfoByFormId ops h formIdStr =
     (case parse_formId formIdStr of
        (logged, None) \<Rightarrow> (logged, EmptyString)
      | (logged, Some formId) \<Rightarrow>
          (case LookupByID h formId of
             None \<Rightarrow> (logged @ [warn_form_not_found], EmptyString)
           | Some OtherForm \<Rightarrow> (logged @ [warn_not_a_spell], EmptyString)
           | Some (Spell spell) \<Rightarrow> (logged, Document (spell_info ops h formIdStr formId spell))))"

section \<open>The detail document in the words of the specification\<close>

text \<open>
  An entry of the effect list has a description when it is present, has a base effect, and
  the description of the base effect is not empty.
\<close>

definition has_description :: "'f Effect option \<Rightarrow> bool" where
  "has_description effect =
     (case effect of
        None \<Rightarrow> False
      | Some e \<Rightarrow>
          (case baseEffect e of None \<Rightarrow> False | Some b \<Rightarrow> es_magicItemDescription b \<noteq> []))"

text \<open>
  The entries of the effect list that the loops do not skip: those present, with a base
  effect. Each is paired with its base effect.
\<close>

definition present_effects :: "'f Effect option list \<Rightarrow> ('f Effect \<times> EffectSetting) list" where
  "present_effects es =
     concat (map (\<lambda>effect. case effect of
                     None \<Rightarrow> []
                   | Some e \<Rightarrow> (case baseEffect e of None \<Rightarrow> [] | Some b \<Rightarrow> [(e, b)])) es)"


section \<open>The scans in the words of the specification\<close>

text \<open>
  The teaching routes of a catalog: every book that is present, teaches a spell and
  references one, with the spell it references, in the order of the catalog.
\<close>

definition teaching_route :: "'f TESObjectBOOK option \<Rightarrow> ('f TESObjectBOOK \<times> 'f SpellItem) list" where
  "teaching_route entry =
     (case entry of
        None \<Rightarrow> []
      | Some book \<Rightarrow>
          if TeachesSpell book
          then (case GetSpell book of None \<Rightarrow> [] | Some spell \<Rightarrow> [(book, spell)])
          else [])"

definition teaching_routes ::
  "'f TESObjectBOOK option list \<Rightarrow> ('f TESObjectBOOK \<times> 'f SpellItem) list" where
  "teaching_routes books = concat (map teaching_route books)"

definition taught_id :: "'f TESObjectBOOK \<times> 'f SpellItem \<Rightarrow> FormID" where
  "taught_id route = spell_formID (snd route)"

text \<open>
  Deduplication by the identifier of the taught spell, the first occurrence winning: a
  route stays, and every later route to the same identifier goes.
\<close>

fun first_occurrences ::
  "('f TESObjectBOOK \<times> 'f SpellItem) list \<Rightarrow> ('f TESObjectBOOK \<times> 'f SpellItem) list" where
  "first_occurrences [] = []"
| "first_occurrences (r # rs) =
     r # first_occurrences (filter (\<lambda>q. taught_id q \<noteq> taught_id r) rs)"

text \<open>The two checks of the tome scan on a taught spell, and the record of a route.\<close>

definition named_with_school :: "'f TESObjectBOOK \<times> 'f SpellItem \<Rightarrow> bool" where
  "named_with_school route \<longleftrightarrow>
     spell_fullName (snd route) \<noteq> [] \<and> fst (first_effect_school (snd route)) \<noteq> kNone"

definition route_record ::
  "'f TESDataHandler \<Rightarrow> FieldConfig \<Rightarrow> 'f TESObjectBOOK \<times> 'f SpellItem \<Rightarrow> 'f json" where
  "route_record dh flds route =
     JObject (tome_record dh flds (fst route) (snd route)
                (fst (first_effect_school (snd route))) (snd (first_effect_school (snd route))))"

text \<open>The field \<open>formId\<close> of a record.\<close>

definition record_formId :: "'f json \<Rightarrow> 'f json option" where
  "record_formId r = (case r of JObject obj \<Rightarrow> jget obj ''formId'' | _ \<Rightarrow> None)"

text \<open>
  The body of the loop of the tome scan on a teaching route: the statements of
  \<open>scan_book\<close> after the three tests that make a route.
\<close>

definition scan_route ::
  "'f TESDataHandler \<Rightarrow> FieldConfig \<Rightarrow> 'f tome_scan \<Rightarrow> 'f TESObjectBOOK \<times> 'f SpellItem
     \<Rightarrow> 'f tome_scan" where
  "scan_route dh flds st route =
     (if taught_id route \<in> seenSpellIds st
      then st\<lparr>skippedDuplicates := skippedDuplicates st + 1\<rparr>
      else if named_with_school route
      then st\<lparr>seenSpellIds := insert (taught_id route) (seenSpellIds st),
              tomeArray := tomeArray st @ [route_record dh flds route],
              tomeCount := tomeCount st + 1\<rparr>
      else st\<lparr>seenSpellIds := insert (taught_id route) (seenSpellIds st)\<rparr>)"

text \<open>
  The routes that stay when the identifiers in \<open>S\<close> have been seen already.
\<close>

definition kept :: "FormID set \<Rightarrow> ('f TESObjectBOOK \<times> 'f SpellItem) list
    \<Rightarrow> ('f TESObjectBOOK \<times> 'f SpellItem) list" where
  "kept S rs = first_occurrences (filter (\<lambda>q. taught_id q \<notin> S) rs)"

text \<open>
  The candidates of a full scan: entities of the spell kind with a name and an editor
  identifier that are not empty.
\<close>

definition scan_candidate :: "'f SpellItem \<Rightarrow> bool" where
  "scan_candidate spell \<longleftrightarrow>
     data_spellType spell = kSpell \<and> spell_fullName spell \<noteq> []
     \<and> (\<exists>editorIdStr. spell_editorID spell = Some editorIdStr \<and> editorIdStr \<noteq> [])"

text \<open>
  A name that looks like a raw identifier: it starts with \<open>0x\<close> or \<open>0X\<close>, or it consists
  of hexadecimal digits and spaces only and has length at least 6.
\<close>

definition name_like_identifier :: "string \<Rightarrow> bool" where
  "name_like_identifier name \<longleftrightarrow>
     starts_with name ''0x'' \<or> starts_with name ''0X''
     \<or> ((\<forall>c\<in>set name. isxdigit c \<or> c = CHR '' '') \<and> length name \<ge> 6)"

text \<open>The five schools of magic.\<close>

definition magic_school :: "ActorValue \<Rightarrow> bool" where
  "magic_school av \<longleftrightarrow>
     av = kAlteration \<or> av = kConjuration \<or> av = kDestruction \<or> av = kIllusion
     \<or> av = kRestoration"

text \<open>
  The skill that the first effect of an entity yields, when it yields one: the skill of
  the base effect of the first entry of the effect list.
\<close>

definition first_effect_skill :: "'f SpellItem \<Rightarrow> ActorValue option" where
  "first_effect_skill spell =
     (case spell_effects spell of
        [] \<Rightarrow> None
      | effect # rest \<Rightarrow> Option.bind effect (\<lambda>e. map_option es_magickSkill (baseEffect e)))"

text \<open>The names of the effects of an entity: of the entries present with a base effect.\<close>

definition effect_names :: "'f SpellItem \<Rightarrow> string list" where
  "effect_names spell = map (\<lambda>p. es_fullName (snd p)) (present_effects (spell_effects spell))"

text \<open>A float exceeds a number: it is plus infinity, or a finite value greater than it.\<close>

definition exceeds :: "float \<Rightarrow> real \<Rightarrow> bool" where
  "exceeds x bound \<longleftrightarrow>
     (case x of Finite m e \<Rightarrow> dyadic m e > bound | PlusInfinity \<Rightarrow> True | _ \<Rightarrow> False)"

text \<open>
  The exclusions as the specification states them: the first effect yields no school when
  it yields none of the five schools, and a name of an effect is valid and not like an
  identifier when it is not empty and does not look like a raw identifier.
\<close>

definition claimed_excluded :: "float SpellItem \<Rightarrow> bool" where
  "claimed_excluded spell \<longleftrightarrow>
     name_like_identifier (spell_fullName spell)
     \<or> (\<exists>editorIdStr. spell_editorID spell = Some editorIdStr \<and> isNonPlayerSpell editorIdStr)
     \<or> \<not> (\<exists>av. first_effect_skill spell = Some av \<and> magic_school av)
     \<or> exceeds (CalculateMagickaCost spell) 1000
     \<or> \<not> (\<exists>name\<in>set (effect_names spell). name \<noteq> [] \<and> \<not> name_like_identifier name)"

text \<open>
  The exclusions that hold of the scan. The first effect yields no skill, or the skill
  \<open>kNone\<close>; and no effect has a name that is longer than two characters and does not start
  with \<open>0x\<close> or \<open>0X\<close>.
\<close>

definition excluded :: "float SpellItem \<Rightarrow> bool" where
  "excluded spell \<longleftrightarrow>
     name_like_identifier (spell_fullName spell)
     \<or> (\<exists>editorIdStr. spell_editorID spell = Some editorIdStr \<and> isNonPlayerSpell editorIdStr)
     \<or> first_effect_skill spell = None \<or> first_effect_skill spell = Some kNone
     \<or> exceeds (CalculateMagickaCost spell) 1000
     \<or> \<not> (\<exists>name\<in>set (effect_names spell).
            length name > 2 \<and> \<not> starts_with name ''0x'' \<and> \<not> starts_with name ''0X'')"

definition keeps :: "float SpellItem \<Rightarrow> bool" where
  "keeps spell \<longleftrightarrow> scan_candidate spell \<and> \<not> excluded spell"

definition spell_record :: "'f TESDataHandler \<Rightarrow> FieldConfig \<Rightarrow> 'f SpellItem \<Rightarrow> 'f json" where
  "spell_record dh flds spell =
     JObject (full_scan_record dh flds spell
                (case spell_editorID spell of None \<Rightarrow> [] | Some s \<Rightarrow> s)
                (fst (first_effect_school spell)) (snd (first_effect_school spell)))"

text \<open>The field \<open>school\<close> of a record.\<close>

definition record_school :: "'f json \<Rightarrow> 'f json option" where
  "record_school r = (case r of JObject obj \<Rightarrow> jget obj ''school'' | _ \<Rightarrow> None)"

text \<open>The entries of a form array that are present.\<close>

definition present :: "'a option list \<Rightarrow> 'a list" where
  "present entries = concat (map (\<lambda>entry. case entry of None \<Rightarrow> [] | Some x \<Rightarrow> [x]) entries)"

section \<open>Example values\<close>

text \<open>
  A small catalog for the examples of the specification: a spell with one effect of
  magnitude 40 at the identifier \<open>0x12FCD\<close>, a spell whose only effect has no base effect
  at \<open>0x12FCE\<close>, a form that is not a spell at \<open>0x7\<close>, and an effectiveness subsystem that
  reports both spells as early-learned with ratio one half.
\<close>

definition example_base :: EffectSetting where
  "example_base = \<lparr> es_fullName = ''Fire Damage'', es_magickSkill = kDestruction,
     es_minimumSkillLevel = 0, es_magicItemDescription = ''Burns the target.'' \<rparr>"

definition example_effect :: "float Effect" where
  "example_effect = \<lparr> ei_magnitude = Finite 40 0, ei_duration = 0, ei_area = 0,
     baseEffect = Some example_base \<rparr>"

definition example_spell :: "float SpellItem" where
  "example_spell = \<lparr> spell_formID = 0x12FCD, spell_editorID = Some ''Flames'',
     spell_fullName = ''Flames'', data_spellType = kSpell, data_castingType = kConcentration,
     data_delivery = kAimed, data_chargeTime = Finite 0 0, CalculateMagickaCost = Finite 14 0,
     spell_effects = [Some example_effect], spell_keywords = None \<rparr>"

definition baseless_spell :: "float SpellItem" where
  "baseless_spell = example_spell \<lparr> spell_formID := 0x12FCE,
     spell_effects := [Some (example_effect \<lparr> baseEffect := None \<rparr>)] \<rparr>"

definition example_hook :: "float SpellEffectivenessHook" where
  "example_hook = \<lparr> IsEarlyLearnedSpell = (\<lambda>formId. formId = 0x12FCD \<or> formId = 0x12FCE),
     CalculateEffectiveness = (\<lambda>formId. Finite 1 (- 1)) \<rparr>"

definition example_host :: "float host" where
  "example_host = \<lparr> dataHandler = None,
     LookupByID = (\<lambda>formId. if formId = 0x12FCD then Some (Spell example_spell)
                             else if formId = 0x12FCE then Some (Spell baseless_spell)
                             else if formId = 0x7 then Some OtherForm
                             else None),
     effectivenessHook = Some example_hook \<rparr>"

text \<open>
  Three spells that differ from the example spell in one respect each: the name is a raw
  identifier, the computed cost is 1500, there is no effect. A fifth spell, \<open>Sparks\<close>.
  Three tomes, the first two for the example spell and the third for \<open>Sparks\<close>. The catalog
  holds the five spells and the three tomes.
\<close>

definition unnamed_spell :: "float SpellItem" where
  "unnamed_spell = example_spell \<lparr> spell_formID := 0xA26FF, spell_fullName := ''0x000A26FF'' \<rparr>"

definition costly_spell :: "float SpellItem" where
  "costly_spell = example_spell \<lparr> spell_formID := 0x2DD29, CalculateMagickaCost := Finite 1500 0 \<rparr>"

definition effectless_spell :: "float SpellItem" where
  "effectless_spell = example_spell \<lparr> spell_formID := 0x2DD2A, spell_effects := [] \<rparr>"

definition sparks_spell :: "float SpellItem" where
  "sparks_spell = example_spell \<lparr> spell_formID := 0x2DD2B, spell_editorID := Some ''Sparks'',
     spell_fullName := ''Sparks'' \<rparr>"

definition tome1 :: "float TESObjectBOOK" where
  "tome1 = \<lparr> book_formID = 0xA26FD, book_fullName = ''Spell Tome: Flames'',
     TeachesSpell = True, GetSpell = Some example_spell \<rparr>"

definition tome2 :: "float TESObjectBOOK" where
  "tome2 = tome1 \<lparr> book_formID := 0xA26FE \<rparr>"

definition tome3 :: "float TESObjectBOOK" where
  "tome3 = \<lparr> book_formID = 0xA2700, book_fullName = ''Spell Tome: Sparks'',
     TeachesSpell = True, GetSpell = Some sparks_spell \<rparr>"

definition example_catalog :: "float TESDataHandler" where
  "example_catalog = \<lparr>
     allSpells = [Some example_spell, Some unnamed_spell, Some costly_spell,
                  Some effectless_spell, Some sparks_spell],
     allBooks = [Some tome1, Some tome2, Some tome3],
     LookupLoadedModByIndex = (\<lambda>modIndex. None),
     LookupLoadedLightModByIndex = (\<lambda>lightIndex. None) \<rparr>"

text \<open>
  Three more spells that differ from the example spell in their only effect: its skill is
  not a school of magic (23 is the index of enchanting among the actor values), its name
  consists of hexadecimal digits only, its name has two characters. \<open>catalog_of spell\<close>
  is the example catalog with that spell as its only spell.
\<close>

definition enchanting_spell :: "float SpellItem" where
  "enchanting_spell = example_spell \<lparr> spell_formID := 0x2DD2C,
     spell_effects := [Some (example_effect \<lparr> baseEffect :=
        Some (example_base \<lparr> es_magickSkill := kOtherActorValue 23 \<rparr>) \<rparr>)] \<rparr>"

definition hex_effect_spell :: "float SpellItem" where
  "hex_effect_spell = example_spell \<lparr> spell_formID := 0x2DD2D,
     spell_effects := [Some (example_effect \<lparr> baseEffect :=
        Some (example_base \<lparr> es_fullName := ''DEADBEEF'' \<rparr>) \<rparr>)] \<rparr>"

definition short_effect_spell :: "float SpellItem" where
  "short_effect_spell = example_spell \<lparr> spell_formID := 0x2DD2E,
     spell_effects := [Some (example_effect \<lparr> baseEffect :=
        Some (example_base \<lparr> es_fullName := ''Up'' \<rparr>) \<rparr>)] \<rparr>"

definition catalog_of :: "float SpellItem \<Rightarrow> float TESDataHandler" where
  "catalog_of spell = example_catalog \<lparr> allSpells := [Some spell] \<rparr>"


section \<open>Properties of the sanitizer\<close>

lemma sanitize_step_eq: "sanitize_step result c = result @ sanitize_byte c"
  by (auto simp: sanitize_step_def sanitize_byte_def in_control_range_def substitution_def)

lemma foldl_sanitize_step: "foldl sanitize_step acc xs = acc @ concat (map sanitize_byte xs)"
  by (induction xs arbitrary: acc) (simp_all add: sanitize_step_eq)

lemma SanitizeToUTF8_concat: "SanitizeToUTF8 xs = concat (map sanitize_byte xs)"
  by (simp add: SanitizeToUTF8_def foldl_sanitize_step)

lemma sanitize_byte_clean: "c' \<in> set (sanitize_byte c) \<Longrightarrow> \<not> in_control_range c'"
  by (auto simp: sanitize_byte_def substitution_def in_control_range_def byte_def
      split: if_splits)

lemma SanitizeToUTF8_clean: "c \<in> set (SanitizeToUTF8 xs) \<Longrightarrow> \<not> in_control_range c"
  by (auto simp: SanitizeToUTF8_concat dest: sanitize_byte_clean)

lemma SanitizeToUTF8_id: "\<forall>c\<in>set xs. \<not> in_control_range c \<Longrightarrow> SanitizeToUTF8 xs = xs"
  by (induction xs) (simp_all add: SanitizeToUTF8_concat sanitize_byte_def)

lemma SanitizeToUTF8_idem: "SanitizeToUTF8 (SanitizeToUTF8 xs) = SanitizeToUTF8 xs"
  by (rule SanitizeToUTF8_id) (auto dest: SanitizeToUTF8_clean)

lemma sanitize_byte_nonempty: "sanitize_byte c \<noteq> []"
  by (simp add: sanitize_byte_def substitution_def)

lemma SanitizeToUTF8_Nil_iff: "SanitizeToUTF8 xs = [] \<longleftrightarrow> xs = []"
  by (cases xs) (simp_all add: SanitizeToUTF8_concat sanitize_byte_nonempty)

lemma SanitizeToUTF8_single: "SanitizeToUTF8 [c] = sanitize_byte c"
  by (simp add: SanitizeToUTF8_concat)

text \<open>
  Claim C8. \<open>SanitizeToUTF8\<close> is a total function on byte strings whose result is the
  concatenation, byte by byte, of: the byte itself when it lies outside \<open>[0x80, 0x9F]\<close>
  (below 0x80, or in \<open>[0xA0, 0xFF]\<close>), and its entry of the substitution table when it lies
  inside. The table sends 0x91 and 0x92 to the ASCII single quote, 0x93 and 0x94 to the
  ASCII double quote, 0x96 and 0x97 to the hyphen, 0x85 to three periods, 0x99 to \<open>(TM)\<close>
  and every other byte of the range to a question mark. The result holds no byte of
  \<open>[0x80, 0x9F]\<close>, an input of ASCII bytes only is returned unchanged, and sanitizing
  twice is sanitizing once.
\<close>

theorem SanitizeToUTF8_spec:
  "SanitizeToUTF8 x
     = concat (map (\<lambda>c. if 0x80 \<le> byte c \<and> byte c \<le> 0x9F then substitution c else [c]) x)
   \<and> (\<forall>c. byte c = 0x91 \<or> byte c = 0x92 \<longrightarrow> substitution c = [CHR 0x27])
   \<and> (\<forall>c. byte c = 0x93 \<or> byte c = 0x94 \<longrightarrow> substitution c = [CHR 0x22])
   \<and> (\<forall>c. byte c = 0x96 \<or> byte c = 0x97 \<longrightarrow> substitution c = ''-'')
   \<and> (\<forall>c. byte c = 0x85 \<longrightarrow> substitution c = ''...'')
   \<and> (\<forall>c. byte c = 0x99 \<longrightarrow> substitution c = ''(TM)'')
   \<and> (\<forall>c. byte c \<notin> {0x85, 0x91, 0x92, 0x93, 0x94, 0x96, 0x97, 0x99} \<longrightarrow> substitution c = ''?'')
   \<and> (\<forall>c\<in>set (SanitizeToUTF8 x). \<not> (0x80 \<le> byte c \<and> byte c \<le> 0x9F))
   \<and> ((\<forall>c\<in>set x. byte c < 0x80) \<longrightarrow> SanitizeToUTF8 x = x)
   \<and> SanitizeToUTF8 (SanitizeToUTF8 x) = SanitizeToUTF8 x"
proof -
  have shape: "SanitizeToUTF8 x
     = concat (map (\<lambda>c. if 0x80 \<le> byte c \<and> byte c \<le> 0x9F then substitution c else [c]) x)"
    using SanitizeToUTF8_concat [of x]
    by (simp add: sanitize_byte_def [abs_def] in_control_range_def)
  have table: "(\<forall>c. byte c = 0x91 \<or> byte c = 0x92 \<longrightarrow> substitution c = [CHR 0x27])
     \<and> (\<forall>c. byte c = 0x93 \<or> byte c = 0x94 \<longrightarrow> substitution c = [CHR 0x22])
     \<and> (\<forall>c. byte c = 0x96 \<or> byte c = 0x97 \<longrightarrow> substitution c = ''-'')
     \<and> (\<forall>c. byte c = 0x85 \<longrightarrow> substitution c = ''...'')
     \<and> (\<forall>c. byte c = 0x99 \<longrightarrow> substitution c = ''(TM)'')
     \<and> (\<forall>c. byte c \<notin> {0x85, 0x91, 0x92, 0x93, 0x94, 0x96, 0x97, 0x99} \<longrightarrow> substitution c = ''?'')"
    by (simp add: substitution_def)
  have clean: "\<forall>c\<in>set (SanitizeToUTF8 x). \<not> (0x80 \<le> byte c \<and> byte c \<le> 0x9F)"
    using SanitizeToUTF8_clean [of _ x] by (auto simp: in_control_range_def)
  have ascii: "(\<forall>c\<in>set x. byte c < 0x80) \<longrightarrow> SanitizeToUTF8 x = x"
  proof
    assume "\<forall>c\<in>set x. byte c < 0x80"
    then have "\<forall>c\<in>set x. \<not> in_control_range c"
      by (auto simp: in_control_range_def)
    then show "SanitizeToUTF8 x = x"
      by (rule SanitizeToUTF8_id)
  qed
  from shape table clean ascii SanitizeToUTF8_idem [of x] show ?thesis
    by blast
qed

theorem SanitizeToUTF8_spec_witness:
  "SanitizeToUTF8 [CHR 0x91, CHR ''a'', CHR 0xE9, CHR 0x85, CHR 0x81]
     = [CHR 0x27, CHR ''a'', CHR 0xE9, CHR ''.'', CHR ''.'', CHR ''.'', CHR ''?'']
   \<and> SanitizeToUTF8 ''Fire Bolt'' = ''Fire Bolt''"
proof -
  have ascii: "\<forall>c\<in>set ''Fire Bolt''. byte c < 0x80"
    by (simp add: byte_def)
  have "SanitizeToUTF8 ''Fire Bolt'' = ''Fire Bolt''"
    using SanitizeToUTF8_spec [of "''Fire Bolt''"] ascii by blast
  moreover have "SanitizeToUTF8 [CHR 0x91, CHR ''a'', CHR 0xE9, CHR 0x85, CHR 0x81]
     = [CHR 0x27, CHR ''a'', CHR 0xE9, CHR ''.'', CHR ''.'', CHR ''.'', CHR ''?'']"
    using SanitizeToUTF8_spec [of "[CHR 0x91, CHR ''a'', CHR 0xE9, CHR 0x85, CHR 0x81]"]
    by (simp add: substitution_def byte_def)
  ultimately show ?thesis by blast
qed

section \<open>Properties of the classifier\<close>

lemma find_from_None_iff: "find_from i w s = None \<longleftrightarrow> \<not> sublist w s"
proof (induction s arbitrary: i)
  case Nil
  then show ?case by simp
next
  case (Cons c cs)
  have "take (length w) (c # cs) = w \<longleftrightarrow> prefix w (c # cs)"
    by (metis append_eq_conv_conj prefix_def)
  then show ?case using Cons by (simp add: sublist_Cons_right)
qed

lemma find_str_contains: "find_str s w \<noteq> None \<longleftrightarrow> contains s w"
  by (simp add: find_str_def contains_def find_from_None_iff)

lemma take_eq_prefix: "length w = n \<Longrightarrow> take n s = w \<longleftrightarrow> prefix w s"
  by (metis append_eq_conv_conj prefix_def)

lemma find_from_ge: "find_from i w s = Some j \<Longrightarrow> i \<le> j"
  by (induction s arbitrary: i) (auto split: if_splits dest: Suc_leD)

lemma find_from_here: "find_from i w s = Some i \<longleftrightarrow> prefix w s"
proof (cases s)
  case Nil
  then show ?thesis by simp
next
  case (Cons c cs)
  have "find_from (Suc i) w cs \<noteq> Some i"
    using find_from_ge [of "Suc i" w cs i] by auto
  then show ?thesis using Cons take_eq_prefix [of w "length w" "c # cs"] by simp
qed

lemma find_str_starts_with: "find_str s w = Some 0 \<longleftrightarrow> starts_with s w"
  by (simp add: find_str_def starts_with_def find_from_here)

lemma length_ge_4: "4 \<le> length l \<Longrightarrow> \<exists>a b c d rest. l = a # b # c # d # rest"
  by (auto simp: eval_nat_numeral Suc_le_length_iff)

lemma mg_pattern:
  "(length l \<ge> 4 \<and> take 2 l = ''mg'' \<and> isdigit (l ! 2) \<and> isdigit (l ! 3)) \<longleftrightarrow> mg_two_digits l"
proof
  assume a: "length l \<ge> 4 \<and> take 2 l = ''mg'' \<and> isdigit (l ! 2) \<and> isdigit (l ! 3)"
  then obtain a b c d rest where l: "l = a # b # c # d # rest"
    using length_ge_4 by blast
  with a show "mg_two_digits l"
    by (auto simp: mg_two_digits_def)
next
  assume "mg_two_digits l"
  then show "length l \<ge> 4 \<and> take 2 l = ''mg'' \<and> isdigit (l ! 2) \<and> isdigit (l ! 3)"
    by (auto simp: mg_two_digits_def)
qed

lemma if_True_else: "(if P then True else Q) \<longleftrightarrow> P \<or> Q"
  by simp

lemma take_starts_with:
  "take 2 s = ''cr'' \<longleftrightarrow> starts_with s ''cr''"
  "take 3 s = ''dun'' \<longleftrightarrow> starts_with s ''dun''"
  "take 4 s = ''perk'' \<longleftrightarrow> starts_with s ''perk''"
  "take 5 s = ''power'' \<longleftrightarrow> starts_with s ''power''"
  "take 4 s = ''test'' \<longleftrightarrow> starts_with s ''test''"
  unfolding starts_with_def by (rule take_eq_prefix, simp)+

lemma isNonPlayerSpell_iff: "isNonPlayerSpell s \<longleftrightarrow> classifier_spec (map tolower s)"
  unfolding isNonPlayerSpell_def classifier_spec_def Let_def if_True_else
    find_str_contains find_str_starts_with mg_pattern take_starts_with
  by (simp only: simp_thms disj_assoc)

lemma byte_less_256: "byte c < 256"
  by (simp add: byte_def)

lemma byte_char_of: "n < 256 \<Longrightarrow> byte (char_of n) = n"
  by (simp add: byte_def)

lemma tolower_tolower: "tolower (tolower c) = tolower c"
  by (simp add: tolower_def byte_char_of)

lemma tolower_toupper: "tolower (toupper c) = tolower c"
proof (cases "97 \<le> byte c \<and> byte c \<le> 122")
  case True
  have b: "byte (char_of (byte c - 32)) = byte c - 32"
    using byte_less_256 [of c] by (intro byte_char_of) arith
  have "65 \<le> byte c - 32 \<and> byte c - 32 \<le> 90"
    using True by arith
  with b have "tolower (char_of (byte c - 32)) = char_of (byte c - 32 + 32)"
    unfolding tolower_def by presburger
  moreover have "byte c - 32 + 32 = byte c"
    using True by arith
  moreover have "char_of (byte c) = c"
    by (simp add: byte_def)
  moreover have "toupper c = char_of (byte c - 32)"
    using True by (simp add: toupper_def)
  moreover have "tolower c = c"
    using True by (simp add: tolower_def)
  ultimately show ?thesis by simp
next
  case False
  then have "toupper c = c"
    unfolding toupper_def by presburger
  then show ?thesis by simp
qed

text \<open>
  Claim C7. The classifier answers true exactly when one of the checks of the
  specification matches the lower-cased identifier: contains "trap"; starts with "cr";
  contains "altar", "shrine", or both "blessing" and "spell"; starts with "dun"; starts
  with "perk"; contains "hazard"; starts with "power"; starts with "test"; starts with
  "mg" followed by two digits; starts with "mgr"; contains "voice"; contains both
  "teleport" and "pet"; contains "lefthand" or "righthand"; contains "copy". It ignores
  letter case: two identifiers with the same lower-casing get the same answer, and so do
  an identifier, its lower-casing and its upper-casing. The five examples of the
  specification hold.
\<close>

theorem isNonPlayerSpell_spec:
  "(isNonPlayerSpell s \<longleftrightarrow> classifier_spec (map tolower s))
   \<and> (map tolower s = map tolower t \<longrightarrow> isNonPlayerSpell s = isNonPlayerSpell t)
   \<and> isNonPlayerSpell (map tolower s) = isNonPlayerSpell s
   \<and> isNonPlayerSpell (map toupper s) = isNonPlayerSpell s
   \<and> isNonPlayerSpell ''TrapFireRune''
   \<and> \<not> isNonPlayerSpell ''FlamesSpell''
   \<and> isNonPlayerSpell ''CRWolfBite''
   \<and> isNonPlayerSpell ''MG05Teleport''
   \<and> isNonPlayerSpell ''TRAP01'' = isNonPlayerSpell ''trap01''"
proof -
  have same: "map tolower s = map tolower t \<longrightarrow> isNonPlayerSpell s = isNonPlayerSpell t"
    by (simp add: isNonPlayerSpell_iff)
  have lower: "isNonPlayerSpell (map tolower s) = isNonPlayerSpell s"
    by (simp add: isNonPlayerSpell_iff tolower_tolower comp_def)
  have upper: "isNonPlayerSpell (map toupper s) = isNonPlayerSpell s"
    by (simp add: isNonPlayerSpell_iff tolower_toupper comp_def)
  have e1: "isNonPlayerSpell ''TrapFireRune''" by code_simp
  have e2: "\<not> isNonPlayerSpell ''FlamesSpell''" by code_simp
  have e3: "isNonPlayerSpell ''CRWolfBite''" by code_simp
  have e4: "isNonPlayerSpell ''MG05Teleport''" by code_simp
  have e5: "isNonPlayerSpell ''TRAP01'' = isNonPlayerSpell ''trap01''" by code_simp
  from isNonPlayerSpell_iff [of s] same lower upper e1 e2 e3 e4 e5 show ?thesis
    by blast
qed

theorem isNonPlayerSpell_spec_witness:
  "map tolower ''DunTest'' = map tolower ''dUNtEST''
   \<and> isNonPlayerSpell ''DunTest'' = isNonPlayerSpell ''dUNtEST''
   \<and> isNonPlayerSpell ''DunTest''
   \<and> classifier_spec ''duntest''"
proof -
  have l1: "map tolower ''DunTest'' = ''duntest''" by code_simp
  have l2: "map tolower ''dUNtEST'' = ''duntest''" by code_simp
  have yes: "isNonPlayerSpell ''DunTest''" by code_simp
  from isNonPlayerSpell_spec [of "''DunTest''" "''dUNtEST''"] l1 l2 yes show ?thesis
    by simp
qed

section \<open>Rendering and parsing round trip\<close>



lemmas parse_defs = parse_formId_def strip_0x_def stoul_def ULONG_MAX_def hex_number_def hex_value_def
  isxdigit_def byte_def Let_def


lemma hex_digit_upper_isxdigit: "d < 16 \<Longrightarrow> isxdigit (hex_digit_upper d)"
  by (auto simp: isxdigit_def hex_digit_upper_def byte_def)

lemma hex_value_digit: "d < 16 \<Longrightarrow> hex_value (hex_digit_upper d) = d"
  by (auto simp: hex_value_def hex_digit_upper_def byte_def)

lemma hex_number_snoc: "hex_number (s @ [c]) = 16 * hex_number s + hex_value c"
  by (simp add: hex_number_def)

lemma hex_number_hex_upper: "hex_number (hex_upper n) = n"
proof (induction n rule: hex_upper.induct)
  case (1 n)
  show ?case
  proof (cases "n < 16")
    case True
    then show ?thesis
      by (simp add: hex_upper.simps [of n] hex_number_def hex_value_digit)
  next
    case False
    with 1 show ?thesis
      by (simp add: hex_upper.simps [of n] hex_number_snoc hex_value_digit)
  qed
qed

lemma hex_upper_all_xdigit: "list_all isxdigit (hex_upper n)"
proof (induction n rule: hex_upper.induct)
  case (1 n)
  show ?case
  proof (cases "n < 16")
    case True
    then show ?thesis
      by (simp add: hex_upper.simps [of n] hex_digit_upper_isxdigit)
  next
    case False
    with 1 show ?thesis
      by (simp add: hex_upper.simps [of n] hex_digit_upper_isxdigit)
  qed
qed

lemma length_hex_upper: "n < 16 ^ k \<Longrightarrow> 0 < k \<Longrightarrow> length (hex_upper n) \<le> k"
proof (induction n arbitrary: k rule: hex_upper.induct)
  case (1 n)
  show ?case
  proof (cases "n < 16")
    case True
    with 1 show ?thesis by (simp add: hex_upper.simps [of n])
  next
    case False
    then obtain k' where k: "k = Suc k'" and k': "0 < k'"
      using 1(2,3) by (cases k; cases "k - 1") auto
    have "n div 16 < 16 ^ k'"
      using 1(2) k by (simp add: less_mult_imp_div_less mult.commute)
    with 1(1) [OF False this k'] False k show ?thesis
      by (simp add: hex_upper.simps [of n])
  qed
qed

lemma hex_number_zeros: "hex_number (replicate k (CHR ''0'') @ s) = hex_number s"
proof -
  have "foldl (\<lambda>acc c. 16 * acc + hex_value c) 0 (replicate k (CHR ''0'')) = 0"
    by (induction k) (simp_all add: hex_value_def byte_def)
  then show ?thesis by (simp add: hex_number_def)
qed

lemma isxdigit_zero: "isxdigit (CHR ''0'')"
  by (simp add: isxdigit_def byte_def)

lemma unat_less_16_8: "unat (v :: 32 word) < 16 ^ 8"
  using unsigned_less [of v, where ?'a = nat] by simp

lemma length_digits8: "length (digits8 v) = 8"
  using length_hex_upper [OF unat_less_16_8, of v] by (simp add: digits8_def pad_left_def)

lemma digits8_xdigit: "list_all isxdigit (digits8 v)"
  using hex_upper_all_xdigit [of "unat v"]
  by (auto simp: digits8_def pad_left_def list_all_iff isxdigit_zero)

lemma hex_number_digits8: "hex_number (digits8 v) = unat v"
  by (simp add: digits8_def pad_left_def hex_number_zeros hex_number_hex_upper)

lemma format_formId_digits8: "format_formId v = ''0x'' @ digits8 v"
  by (simp add: format_formId_def digits8_def)


lemma hex_value_less: "isxdigit c \<Longrightarrow> hex_value c < 16"
  unfolding isxdigit_def hex_value_def by (cases "byte c \<le> 57"; cases "byte c \<le> 70") auto

lemma hex_number_less: "list_all isxdigit s \<Longrightarrow> hex_number s < 16 ^ length s"
proof (induction s rule: rev_induct)
  case Nil
  then show ?case by (simp add: hex_number_def)
next
  case (snoc c s)
  then have "hex_number s < 16 ^ length s" and "hex_value c < 16"
    by (simp_all add: hex_value_less)
  then have "16 * hex_number s + hex_value c < 16 * 16 ^ length s"
    by arith
  then show ?case by (simp add: hex_number_snoc)
qed

lemma not_xdigit_x: "\<not> isxdigit (CHR ''x'')" "\<not> isxdigit (CHR ''X'')"
  by (simp_all add: isxdigit_def byte_def)

lemma length_8: "length s = 8 \<Longrightarrow> \<exists>a b rest. s = a # b # rest"
  by (auto simp: eval_nat_numeral length_Suc_conv)

lemma strip_0x_digits:
  assumes "length s = 8" and "list_all isxdigit s"
  shows "strip_0x s = s"
proof -
  obtain a b rest where s: "s = a # b # rest"
    using assms(1) length_8 by blast
  with assms(2) have "isxdigit b" by simp
  then have "b \<noteq> CHR ''x''" "b \<noteq> CHR ''X''"
    using not_xdigit_x by auto
  then show ?thesis
    by (simp add: strip_0x_def s)
qed

lemma strip_0x_prefixed: "p = ''0x'' \<or> p = ''0X'' \<Longrightarrow> strip_0x (p @ s) = s"
  by (auto simp: strip_0x_def)

lemma parse_formId_clean:
  assumes strip: "strip_0x t = s" and len: "length s = 8" and hex: "list_all isxdigit s"
  shows "parse_formId t = ([], Some (word_of_nat (hex_number s)))"
proof -
  have tw: "takeWhile isxdigit s = s"
    using hex by (simp add: list_all_iff)
  have ne: "s \<noteq> []" using len by auto
  have "hex_number s < 16 ^ 8"
    using hex_number_less [OF hex] len by simp
  then have small: "\<not> hex_number s > ULONG_MAX"
    by (simp add: ULONG_MAX_def)
  have st: "stoul s = Inr (hex_number s)"
    unfolding stoul_def Let_def tw using ne small by simp
  show ?thesis
    unfolding parse_formId_def Let_def strip using len hex st by simp
qed

lemma tolower_eq_xdigit:
  assumes "isxdigit d" and "tolower c = tolower d"
  shows "isxdigit c \<and> hex_value c = hex_value d"
proof -
  have bl: "\<And>x. byte (tolower x) = (if 65 \<le> byte x \<and> byte x \<le> 90 then byte x + 32 else byte x)"
    by (simp add: tolower_def byte_def)
  have "byte (tolower c) = byte (tolower d)"
    using assms(2) by simp
  then have cases: "byte c = byte d \<or> (byte c = byte d + 32 \<and> 65 \<le> byte d \<and> byte d \<le> 90)
      \<or> (byte d = byte c + 32 \<and> 65 \<le> byte c \<and> byte c \<le> 90)"
    unfolding bl by (auto split: if_splits)
  from assms(1) cases show ?thesis
    unfolding isxdigit_def hex_value_def by (elim disjE conjE) auto
qed

lemma case_variant_digits:
  "list_all isxdigit ds \<Longrightarrow> map tolower s = map tolower ds
     \<Longrightarrow> list_all isxdigit s \<and> hex_number s = hex_number ds \<and> length s = length ds"
proof (induction ds arbitrary: s rule: rev_induct)
  case Nil
  then show ?case by simp
next
  case (snoc d ds)
  from snoc.prems(2) have "s \<noteq> []" by auto
  then obtain s' c where s: "s = s' @ [c]"
    by (metis rev_exhaust)
  with snoc.prems have m: "map tolower s' = map tolower ds" and cd: "tolower c = tolower d"
    and dd: "list_all isxdigit ds" and d: "isxdigit d"
    by simp_all
  from snoc.IH [OF dd m] tolower_eq_xdigit [OF d cd] show ?case
    by (simp add: s hex_number_snoc)
qed

lemma tolower_zero: "tolower c = tolower (CHR ''0'') \<Longrightarrow> c = CHR ''0''"
proof -
  assume a: "tolower c = tolower (CHR ''0'')"
  have z: "tolower (CHR ''0'') = CHR ''0''" by (simp add: tolower_def byte_def)
  show "c = CHR ''0''"
  proof (cases "65 \<le> byte c \<and> byte c \<le> 90")
    case True
    then have "byte (tolower c) = byte c + 32"
      by (simp add: tolower_def byte_def)
    with a z True show ?thesis by (simp add: byte_def)
  next
    case False
    then have "tolower c = c" unfolding tolower_def by presburger
    with a z show ?thesis by simp
  qed
qed

lemma tolower_x: "tolower c = tolower (CHR ''x'') \<Longrightarrow> c = CHR ''x'' \<or> c = CHR ''X''"
proof -
  assume a: "tolower c = tolower (CHR ''x'')"
  have z: "tolower (CHR ''x'') = CHR ''x''" by (simp add: tolower_def byte_def)
  show "c = CHR ''x'' \<or> c = CHR ''X''"
  proof (cases "65 \<le> byte c \<and> byte c \<le> 90")
    case True
    then have "byte (tolower c) = byte c + 32"
      by (simp add: tolower_def byte_def)
    with a z have "byte c = byte (CHR ''X'')" by (simp add: byte_def)
    then have "c = CHR ''X''" unfolding byte_def by (simp only: of_char_eq_iff)
    then show ?thesis by simp
  next
    case False
    then have "tolower c = c" unfolding tolower_def by presburger
    with a z show ?thesis by simp
  qed
qed

lemma case_variant_prefix:
  assumes "map tolower s = map tolower (''0x'' @ ds)"
  shows "\<exists>p s'. s = p @ s' \<and> (p = ''0x'' \<or> p = ''0X'') \<and> map tolower s' = map tolower ds"
proof -
  from assms obtain a b s' where s: "s = a # b # s'"
    by (cases s; cases "tl s") auto
  with assms have "tolower a = tolower (CHR ''0'')" "tolower b = tolower (CHR ''x'')"
    and m: "map tolower s' = map tolower ds"
    by simp_all
  then have "a = CHR ''0''" "b = CHR ''x'' \<or> b = CHR ''X''"
    using tolower_zero tolower_x by auto
  with s m show ?thesis
    by (intro exI [of _ "[a, b]"] exI [of _ s']) auto
qed

lemma upper_hex_digit: "d < 16 \<Longrightarrow> upper_hex (hex_digit_upper d)"
  by (auto simp: upper_hex_def hex_digit_upper_def byte_def)

lemma hex_upper_upper: "list_all upper_hex (hex_upper n)"
proof (induction n rule: hex_upper.induct)
  case (1 n)
  show ?case
  proof (cases "n < 16")
    case True
    then show ?thesis
      by (simp add: hex_upper.simps [of n] upper_hex_digit)
  next
    case False
    with 1 show ?thesis
      by (simp add: hex_upper.simps [of n] upper_hex_digit)
  qed
qed

lemma digits8_upper: "list_all upper_hex (digits8 v)"
  using hex_upper_upper [of "unat v"]
  by (auto simp: digits8_def pad_left_def list_all_iff upper_hex_def byte_def)

text \<open>
  Claim C6. The rendering of a 32-bit identifier in scan records is \<open>0x\<close> followed by
  exactly eight upper-case hexadecimal digits (\<open>0x12FCD\<close> renders as \<open>0x00012FCD\<close>), and
  the identifier parser of \<open>GetSpellInfoByFormId\<close> maps it back to the same value, logging
  nothing: as rendered, with the prefix dropped, and for every string that differs from
  either of the two only in letter case (which covers the prefix \<open>0X\<close>).
\<close>

theorem formId_roundtrip:
  "format_formId 0x12FCD = ''0x00012FCD''
   \<and> (\<exists>ds. format_formId v = ''0x'' @ ds \<and> length ds = 8
         \<and> (\<forall>c\<in>set ds. (48 \<le> byte c \<and> byte c \<le> 57) \<or> (65 \<le> byte c \<and> byte c \<le> 70)))
   \<and> parse_formId (format_formId v) = ([], Some v)
   \<and> parse_formId (drop 2 (format_formId v)) = ([], Some v)
   \<and> (\<forall>s. map tolower s = map tolower (format_formId v) \<longrightarrow> parse_formId s = ([], Some v))
   \<and> (\<forall>s. map tolower s = map tolower (drop 2 (format_formId v))
          \<longrightarrow> parse_formId s = ([], Some v))"
proof -
  have inv: "word_of_nat (hex_number (digits8 v)) = v"
    by (simp add: hex_number_digits8)
  have plain: "parse_formId s = ([], Some v)" if "map tolower s = map tolower (digits8 v)" for s
  proof -
    from case_variant_digits [OF digits8_xdigit that]
    have hex: "list_all isxdigit s" and num: "hex_number s = hex_number (digits8 v)"
      and len: "length s = 8"
      by (simp_all add: length_digits8)
    from parse_formId_clean [OF strip_0x_digits [OF len hex] len hex] num inv
    show ?thesis by simp
  qed
  have prefixed: "parse_formId s = ([], Some v)"
    if "map tolower s = map tolower (''0x'' @ digits8 v)" for s
  proof -
    from case_variant_prefix [OF that] obtain p s' where s: "s = p @ s'"
      and p: "p = ''0x'' \<or> p = ''0X''" and m: "map tolower s' = map tolower (digits8 v)"
      by blast
    from case_variant_digits [OF digits8_xdigit m]
    have hex: "list_all isxdigit s'" and num: "hex_number s' = hex_number (digits8 v)"
      and len: "length s' = 8"
      by (simp_all add: length_digits8)
    from parse_formId_clean [OF strip_0x_prefixed [OF p] len hex] num inv s
    show ?thesis by simp
  qed
  have example: "format_formId 0x12FCD = ''0x00012FCD''"
    by (simp add: format_formId_def pad_left_def hex_upper.simps hex_digit_upper_def
        char_of_eq_iff numeral_3_eq_3)
  have upper: "\<forall>c\<in>set (digits8 v). (48 \<le> byte c \<and> byte c \<le> 57) \<or> (65 \<le> byte c \<and> byte c \<le> 70)"
    using digits8_upper [of v] by (simp add: list_all_iff upper_hex_def)
  show ?thesis
    using example upper plain prefixed length_digits8 [of v]
    by (simp add: format_formId_digits8)
qed


lemma eq_char_of_iff: "c = char_of n \<longleftrightarrow> take_bit 8 n = of_char c"
  using char_of_eq_iff [of n c] by auto

theorem formId_roundtrip_witness:
  "map tolower ''0X00012fcd'' = map tolower (format_formId 0x12FCD)
   \<and> parse_formId ''0X00012fcd'' = ([], Some 0x12FCD)
   \<and> map tolower ''00012fCD'' = map tolower (drop 2 (format_formId 0x12FCD))
   \<and> parse_formId ''00012fCD'' = ([], Some 0x12FCD)"
proof -
  have r: "format_formId 0x12FCD = ''0x00012FCD''"
    using formId_roundtrip [of 0] by blast
  have m1: "map tolower ''0X00012fcd'' = map tolower (format_formId 0x12FCD)"
    unfolding r by (simp add: tolower_def byte_def eq_char_of_iff char_of_eq_iff)
  have m2: "map tolower ''00012fCD'' = map tolower (drop 2 (format_formId 0x12FCD))"
    unfolding r by (simp add: tolower_def byte_def eq_char_of_iff char_of_eq_iff)
  from formId_roundtrip [of "0x12FCD"] m1 m2 show ?thesis
    by blast
qed

section \<open>Properties of the float operations\<close>

lemma bit_length_0: "bit_length 0 = 0"
  by (simp add: bit_length.simps)

lemma bit_length_pos: "0 < n \<Longrightarrow> bit_length n = Suc (bit_length (n div 2))"
  by (subst bit_length.simps) simp

text \<open>Truncation toward zero of \<open>m * 2 ^ e\<close>, in integer arithmetic.\<close>

lemma trunc_dyadic:
  "trunc_toward_zero (dyadic m e)
     = (if e \<ge> 0 then m * 2 ^ nat e else sgn m * (\<bar>m\<bar> div 2 ^ nat (- e)))"
proof (cases "e \<ge> 0")
  case True
  have v: "dyadic m e = of_int (m * 2 ^ nat e)"
    using True by (simp add: dyadic_def)
  show ?thesis
    unfolding v trunc_toward_zero_def using True
    by (simp only: of_int_minus [symmetric] floor_of_int of_int_less_0_iff if_True) simp
next
  case False
  have p: "(2::real) ^ nat (- e) = of_int (2 ^ nat (- e))"
    by simp
  have a: "\<lfloor>(of_int k :: real) / 2 ^ nat (- e)\<rfloor> = k div 2 ^ nat (- e)" for k
    unfolding p by (rule floor_divide_of_int_eq)
  have v: "dyadic m e = of_int m / 2 ^ nat (- e)"
    using False by (simp add: dyadic_def)
  have neg: "(of_int m / 2 ^ nat (- e) :: real) < 0 \<longleftrightarrow> m < 0"
    by (simp add: divide_less_0_iff)
  show ?thesis
  proof (cases "m < 0")
    case True
    have "- (of_int m / 2 ^ nat (- e) :: real) = of_int (- m) / 2 ^ nat (- e)"
      by simp
    then have "\<lfloor>- (of_int m / 2 ^ nat (- e) :: real)\<rfloor> = (- m) div 2 ^ nat (- e)"
      using a [of "- m"] by simp
    then show ?thesis
      unfolding v trunc_toward_zero_def using True False neg by simp
  next
    case nn: False
    then show ?thesis
      unfolding v trunc_toward_zero_def using False neg a [of m]
      by (cases "m = 0") simp_all
  qed
qed

lemma float_to_int_Finite:
  "float_to_int (Finite m e)
     = (let t = (if e \<ge> 0 then m * 2 ^ nat e else sgn m * (\<bar>m\<bar> div 2 ^ nat (- e)))
        in if - 2147483648 \<le> t \<and> t \<le> 2147483647 then t else - 2147483648)"
  by (simp add: float_to_int_def finite_value_def trunc_dyadic INT_MIN_def INT_MAX_def Let_def)


lemma float_to_int_range: "INT_MIN \<le> float_to_int x \<and> float_to_int x \<le> INT_MAX"
  by (simp add: float_to_int_def INT_MIN_def INT_MAX_def split: option.splits)

lemmas float_eval = round_binary32_def round_half_even_def float_of_int_def
  float_sign_def float_mul_def float_gt_def float_to_int_Finite Let_def
  bit_length_0 bit_length_pos dyadic_def

lemma binary32_ops_simps:
  "f_gt binary32_ops = float_gt" "f_mul binary32_ops = float_mul"
  "f_lit binary32_ops = float_of_int" "f_to_int binary32_ops = float_to_int"
  by (simp_all add: binary32_ops_def)

lemma float_of_int_100: "float_of_int 100 = Finite 100 0"
  by (simp add: float_eval)

lemma float_of_int_1000: "float_of_int 1000 = Finite 1000 0"
  by (simp add: float_eval)

lemma float_gt_1000: "float_gt x (float_of_int 1000) \<longleftrightarrow> exceeds x 1000"
  unfolding float_of_int_1000
  by (cases x) (simp_all add: float_gt_def exceeds_def dyadic_def)







section \<open>Properties of GetSpellInfoByFormId\<close>

lemma stoul_digits:
  assumes hex: "list_all isxdigit s" and ne: "s \<noteq> []" and len: "length s \<le> 8"
  shows "stoul s = Inr (hex_number s)"
proof -
  have tw: "takeWhile isxdigit s = s"
    using hex by (simp add: list_all_iff)
  have "hex_number s < 16 ^ length s"
    using hex_number_less [OF hex] .
  also have "(16::nat) ^ length s \<le> 16 ^ 8"
    using len by (intro power_increasing) simp_all
  finally have small: "\<not> hex_number s > ULONG_MAX"
    by (simp add: ULONG_MAX_def)
  show ?thesis
    unfolding stoul_def Let_def tw using ne small by simp
qed

lemma parse_formId_invalid:
  "\<not> list_all isxdigit (take 8 (strip_0x s))
    \<Longrightarrow> parse_formId s
        = ((if length (strip_0x s) > 8 then [warn_too_long] else []) @ [error_invalid_hex], None)"
  by (cases "length (strip_0x s) > 8") (simp_all add: parse_formId_def Let_def)

lemma parse_formId_truncated:
  assumes long: "length (strip_0x s) > 8" and hex: "list_all isxdigit (take 8 (strip_0x s))"
  shows "parse_formId s = ([warn_too_long], Some (word_of_nat (hex_number (take 8 (strip_0x s)))))"
proof -
  have "take 8 (strip_0x s) \<noteq> []" using long by auto
  with hex have "stoul (take 8 (strip_0x s)) = Inr (hex_number (take 8 (strip_0x s)))"
    by (intro stoul_digits) simp_all
  with long hex show ?thesis
    by (simp add: parse_formId_def Let_def)
qed

lemma parse_formId_empty: "strip_0x s = [] \<Longrightarrow> parse_formId s = ([error_invalid_format], None)"
  by (simp add: parse_formId_def Let_def stoul_def)

text \<open>
  Claim C3, as the code has it. \<open>GetSpellInfoByFormId\<close> returns the empty string, and no
  exception leaves it, when among the first eight characters that remain after the
  optional prefix \<open>0x\<close> or \<open>0X\<close> is removed there is one that is not a hexadecimal digit
  (an error is logged); when nothing remains after the prefix (the exception of the
  conversion is caught); when no form exists at the parsed identifier; and when the form
  there is not a spell. An identifier with more than eight characters after the prefix is
  cut to its first eight, with a warning, before the characters are checked, and is parsed
  when these eight are hexadecimal digits. The input \<open>zz1234\<close> yields the empty string.
\<close>

theorem GetSpellInfoByFormId_empty_string:
  "(\<not> list_all isxdigit (take 8 (strip_0x formIdStr))
      \<longrightarrow> snd (GetSpellInfoByFormId ops h formIdStr) = EmptyString
          \<and> error_invalid_hex \<in> set (fst (GetSpellInfoByFormId ops h formIdStr)))
   \<and> (strip_0x formIdStr = []
      \<longrightarrow> GetSpellInfoByFormId ops h formIdStr = ([error_invalid_format], EmptyString))
   \<and> (parse_formId formIdStr = (logged, Some formId) \<and> LookupByID h formId = None
      \<longrightarrow> GetSpellInfoByFormId ops h formIdStr = (logged @ [warn_form_not_found], EmptyString))
   \<and> (parse_formId formIdStr = (logged, Some formId) \<and> LookupByID h formId = Some OtherForm
      \<longrightarrow> GetSpellInfoByFormId ops h formIdStr = (logged @ [warn_not_a_spell], EmptyString))
   \<and> (length (strip_0x formIdStr) > 8 \<and> list_all isxdigit (take 8 (strip_0x formIdStr))
      \<longrightarrow> parse_formId formIdStr
            = ([warn_too_long], Some (word_of_nat (hex_number (take 8 (strip_0x formIdStr))))))
   \<and> GetSpellInfoByFormId ops h ''zz1234'' = ([error_invalid_hex], EmptyString)"
proof -
  have invalid: "\<not> list_all isxdigit (take 8 (strip_0x formIdStr))
      \<longrightarrow> snd (GetSpellInfoByFormId ops h formIdStr) = EmptyString
          \<and> error_invalid_hex \<in> set (fst (GetSpellInfoByFormId ops h formIdStr))"
    by (simp add: GetSpellInfoByFormId_def parse_formId_invalid)
  have empty: "strip_0x formIdStr = []
      \<longrightarrow> GetSpellInfoByFormId ops h formIdStr = ([error_invalid_format], EmptyString)"
    by (simp add: GetSpellInfoByFormId_def parse_formId_empty)
  have missing: "parse_formId formIdStr = (logged, Some formId) \<and> LookupByID h formId = None
      \<longrightarrow> GetSpellInfoByFormId ops h formIdStr = (logged @ [warn_form_not_found], EmptyString)"
    by (simp add: GetSpellInfoByFormId_def)
  have other: "parse_formId formIdStr = (logged, Some formId) \<and> LookupByID h formId = Some OtherForm
      \<longrightarrow> GetSpellInfoByFormId ops h formIdStr = (logged @ [warn_not_a_spell], EmptyString)"
    by (simp add: GetSpellInfoByFormId_def)
  have zz: "GetSpellInfoByFormId ops h ''zz1234'' = ([error_invalid_hex], EmptyString)"
    by (simp add: GetSpellInfoByFormId_def parse_defs)
  from invalid empty missing other zz parse_formId_truncated [of formIdStr] show ?thesis
    by blast
qed

theorem GetSpellInfoByFormId_empty_string_witness:
  "GetSpellInfoByFormId binary32_ops example_host ''0x12G4'' = ([error_invalid_hex], EmptyString)
   \<and> GetSpellInfoByFormId binary32_ops example_host ''0x'' = ([error_invalid_format], EmptyString)
   \<and> GetSpellInfoByFormId binary32_ops example_host ''0x00000009''
        = ([warn_form_not_found], EmptyString)
   \<and> GetSpellInfoByFormId binary32_ops example_host ''7'' = ([warn_not_a_spell], EmptyString)
   \<and> parse_formId ''00012FCD99'' = ([warn_too_long], Some 0x12FCD)"
proof -
  note inst = GetSpellInfoByFormId_empty_string [where ops = binary32_ops and h = example_host]
  have a: "\<not> list_all isxdigit (take 8 (strip_0x ''0x12G4''))"
    by (simp add: strip_0x_def isxdigit_def byte_def)
  have a': "GetSpellInfoByFormId binary32_ops example_host ''0x12G4'' = ([error_invalid_hex], EmptyString)"
    by (simp add: GetSpellInfoByFormId_def parse_defs)
  have b: "strip_0x ''0x'' = []"
    by (simp add: strip_0x_def)
  have c: "parse_formId ''0x00000009'' = ([], Some 9) \<and> LookupByID example_host 9 = None"
    by (simp add: parse_defs example_host_def)
  have d: "parse_formId ''7'' = ([], Some 7) \<and> LookupByID example_host 7 = Some OtherForm"
    by (simp add: parse_defs example_host_def)
  have e: "length (strip_0x ''00012FCD99'') > 8 \<and> list_all isxdigit (take 8 (strip_0x ''00012FCD99''))"
    by (simp add: strip_0x_def isxdigit_def byte_def)
  have e': "word_of_nat (hex_number (take 8 (strip_0x ''00012FCD99''))) = (0x12FCD :: FormID)"
    by (simp add: strip_0x_def hex_number_def hex_value_def byte_def)
  from inst [of "''0x12G4''"] a a'
    inst [of "''0x''"] b
    inst [of "''0x00000009''" "[]" 9] c
    inst [of "''7''" "[]" 7] d
    inst [of "''00012FCD99''"] e e'
  show ?thesis by simp
qed

text \<open>
  The claim as the specification states it, every identifier with a character that is not
  a hexadecimal digit after the prefix yields the empty string, fails where that character
  comes after the eighth: the identifier is cut first, and the document of the spell is
  returned.
\<close>

theorem GetSpellInfoByFormId_late_invalid_character:
  "\<not> list_all isxdigit (strip_0x ''00012FCDzz'')
   \<and> GetSpellInfoByFormId binary32_ops example_host ''00012FCDzz''
       = ([warn_too_long],
          Document (spell_info binary32_ops example_host ''00012FCDzz'' 0x12FCD example_spell))"
  by (simp add: GetSpellInfoByFormId_def parse_defs example_host_def)

lemma jget_jset: "jget (jset k v obj) k' = (if k' = k then Some v else jget obj k')"
  by (simp add: jget_def jset_def update_conv')


lemma spell_info_formId:
  "jget (spell_info ops h formIdStr formId spell) ''formId'' = Some (JString formIdStr)"
  unfolding spell_info_def Let_def
  by (simp add: jget_jset split: prod.splits option.splits)

lemma parse_12fcd: "parse_formId ''12fcd'' = ([], Some 0x12FCD)"
  by (simp add: parse_defs)

lemma lookup_12fcd:
  "GetSpellInfoByFormId binary32_ops example_host ''12fcd''
     = ([], Document (spell_info binary32_ops example_host ''12fcd'' 0x12FCD example_spell))"
  by (simp add: GetSpellInfoByFormId_def parse_12fcd example_host_def)

text \<open>
  Claim C9. Every document that \<open>GetSpellInfoByFormId\<close> returns carries the caller's
  identifier string, as passed, in its field \<open>formId\<close>. For the input \<open>12fcd\<close> the field is
  \<open>12fcd\<close>, while the spell found there has the identifier that scan records render as
  \<open>0x00012FCD\<close>.
\<close>

theorem GetSpellInfoByFormId_formId_verbatim:
  "(GetSpellInfoByFormId ops h formIdStr = (logged, Document d)
      \<longrightarrow> jget d ''formId'' = Some (JString formIdStr))
   \<and> (\<exists>d. GetSpellInfoByFormId binary32_ops example_host ''12fcd'' = ([], Document d)
          \<and> jget d ''formId'' = Some (JString ''12fcd''))
   \<and> LookupByID example_host 0x12FCD = Some (Spell example_spell)
   \<and> format_formId (spell_formID example_spell) = ''0x00012FCD''"
proof -
  have general: "GetSpellInfoByFormId ops h formIdStr = (logged, Document d)
      \<longrightarrow> jget d ''formId'' = Some (JString formIdStr)"
    by (auto simp: GetSpellInfoByFormId_def spell_info_formId
        split: prod.splits option.splits TESForm.splits)
  have ex: "\<exists>d. GetSpellInfoByFormId binary32_ops example_host ''12fcd'' = ([], Document d)
          \<and> jget d ''formId'' = Some (JString ''12fcd'')"
    using lookup_12fcd spell_info_formId by blast
  have scan: "format_formId (spell_formID example_spell) = ''0x00012FCD''"
    by (simp add: example_spell_def format_formId_def pad_left_def hex_upper.simps
        hex_digit_upper_def char_of_eq_iff numeral_3_eq_3)
  have "LookupByID example_host 0x12FCD = Some (Spell example_spell)"
    by (simp add: example_host_def)
  with general ex scan show ?thesis by blast
qed

theorem GetSpellInfoByFormId_formId_verbatim_witness:
  "GetSpellInfoByFormId binary32_ops example_host ''0X12fcd''
     = ([], Document (spell_info binary32_ops example_host ''0X12fcd'' 0x12FCD example_spell))
   \<and> jget (spell_info binary32_ops example_host ''0X12fcd'' 0x12FCD example_spell) ''formId''
       = Some (JString ''0X12fcd'')"
proof -
  have p: "parse_formId ''0X12fcd'' = ([], Some 0x12FCD)"
    by (simp add: parse_defs)
  have l: "GetSpellInfoByFormId binary32_ops example_host ''0X12fcd''
     = ([], Document (spell_info binary32_ops example_host ''0X12fcd'' 0x12FCD example_spell))"
    by (simp add: GetSpellInfoByFormId_def p example_host_def)
  with GetSpellInfoByFormId_formId_verbatim [of binary32_ops example_host "''0X12fcd''" "[]"
      "spell_info binary32_ops example_host ''0X12fcd'' 0x12FCD example_spell"]
  show ?thesis by blast
qed

text \<open>The third component of the effect loop.\<close>

lemma info_effect_description_kept:
  "description \<noteq> [] \<Longrightarrow> snd (snd (info_effect (ea, na, description) effect)) = description"
  by (simp add: info_effect_def Let_def split: option.splits)

lemma info_effect_description_none:
  "\<not> has_description effect
    \<Longrightarrow> snd (snd (info_effect (ea, na, description) effect)) = description"
  by (simp add: info_effect_def has_description_def Let_def split: option.splits)

lemma info_effect_description_first:
  "baseEffect e = Some b \<Longrightarrow> es_magicItemDescription b \<noteq> []
    \<Longrightarrow> snd (snd (info_effect (ea, na, []) (Some e))) = SanitizeToUTF8 (es_magicItemDescription b)"
  by (simp add: info_effect_def Let_def)

lemma foldl_info_effect_kept:
  "description \<noteq> [] \<Longrightarrow> snd (snd (foldl info_effect (ea, na, description) es)) = description"
proof (induction es arbitrary: ea na description)
  case Nil
  then show ?case by simp
next
  case (Cons effect es)
  obtain ea' na' d' where step: "info_effect (ea, na, description) effect = (ea', na', d')"
    by (cases "info_effect (ea, na, description) effect") auto
  with info_effect_description_kept [OF Cons.prems, of ea na effect] have "d' = description"
    by simp
  with Cons step show ?case by simp
qed

lemma foldl_info_effect_none:
  "\<forall>e\<in>set es. \<not> has_description e
    \<Longrightarrow> snd (snd (foldl info_effect (ea, na, description) es)) = description"
proof (induction es arbitrary: ea na description)
  case Nil
  then show ?case by simp
next
  case (Cons effect es)
  obtain ea' na' d' where step: "info_effect (ea, na, description) effect = (ea', na', d')"
    by (cases "info_effect (ea, na, description) effect") auto
  with info_effect_description_none [of effect ea na description] Cons.prems
  have "d' = description" by simp
  with Cons step show ?case by simp
qed

lemma foldl_info_effect_first:
  assumes pre: "\<forall>x\<in>set pre. \<not> has_description x"
    and b: "baseEffect e = Some b" and d: "es_magicItemDescription b \<noteq> []"
  shows "snd (snd (foldl info_effect (ea, na, []) (pre @ Some e # post)))
           = SanitizeToUTF8 (es_magicItemDescription b)"
proof -
  obtain ea1 na1 d1 where s1: "foldl info_effect (ea, na, []) pre = (ea1, na1, d1)"
    by (cases "foldl info_effect (ea, na, []) pre") auto
  with foldl_info_effect_none [OF pre, of ea na "[]"] have d1: "d1 = []" by simp
  obtain ea2 na2 d2 where s2: "info_effect (ea1, na1, []) (Some e) = (ea2, na2, d2)"
    by (cases "info_effect (ea1, na1, []) (Some e)") auto
  with info_effect_description_first [OF b d, of ea1 na1]
  have d2: "d2 = SanitizeToUTF8 (es_magicItemDescription b)" by simp
  then have "d2 \<noteq> []" using d by (simp add: SanitizeToUTF8_Nil_iff)
  from foldl_info_effect_kept [OF this, of ea2 na2 post] s1 s2 d1 d2 show ?thesis
    by simp
qed

lemma spell_info_description:
  "jget (spell_info ops h formIdStr formId spell) ''description''
     = Some (JString (snd (snd (foldl info_effect ([], [], []) (spell_effects spell)))))"
  unfolding spell_info_def Let_def
  by (simp add: jget_jset split: prod.splits option.splits)

text \<open>
  Claim C10. In every document that \<open>GetSpellInfoByFormId\<close> returns, for the spell that the
  identifier resolves to: the field \<open>description\<close> is the empty string when no entry of the
  effect list has a description, and otherwise it is the sanitized description of the
  first entry, in the order of the list, whose description is not empty.
\<close>

theorem GetSpellInfoByFormId_description:
  "GetSpellInfoByFormId ops h formIdStr = (logged, Document d)
     \<longrightarrow> (\<exists>formId spell.
            snd (parse_formId formIdStr) = Some formId
            \<and> LookupByID h formId = Some (Spell spell)
            \<and> ((\<forall>e\<in>set (spell_effects spell). \<not> has_description e)
                  \<longrightarrow> jget d ''description'' = Some (JString []))
            \<and> (\<forall>pre e b post.
                  spell_effects spell = pre @ Some e # post
                  \<and> (\<forall>x\<in>set pre. \<not> has_description x)
                  \<and> baseEffect e = Some b \<and> es_magicItemDescription b \<noteq> []
                  \<longrightarrow> jget d ''description''
                        = Some (JString (SanitizeToUTF8 (es_magicItemDescription b)))))"
proof
  assume a: "GetSpellInfoByFormId ops h formIdStr = (logged, Document d)"
  then obtain formId spell where p: "snd (parse_formId formIdStr) = Some formId"
    and l: "LookupByID h formId = Some (Spell spell)"
    and d: "d = spell_info ops h formIdStr formId spell"
    by (auto simp: GetSpellInfoByFormId_def split: prod.splits option.splits TESForm.splits)
  have none: "(\<forall>e\<in>set (spell_effects spell). \<not> has_description e)
                  \<longrightarrow> jget d ''description'' = Some (JString [])"
    using foldl_info_effect_none [of "spell_effects spell" "[]" "[]" "[]"]
    by (simp add: d spell_info_description)
  have first: "\<forall>pre e b post.
                  spell_effects spell = pre @ Some e # post
                  \<and> (\<forall>x\<in>set pre. \<not> has_description x)
                  \<and> baseEffect e = Some b \<and> es_magicItemDescription b \<noteq> []
                  \<longrightarrow> jget d ''description''
                        = Some (JString (SanitizeToUTF8 (es_magicItemDescription b)))"
  proof (intro allI impI, elim conjE)
    fix pre e b post
    assume es: "spell_effects spell = pre @ Some e # post"
      and pre: "\<forall>x\<in>set pre. \<not> has_description x"
      and b: "baseEffect e = Some b" and dn: "es_magicItemDescription b \<noteq> []"
    have "snd (snd (foldl info_effect ([], [], []) (spell_effects spell)))
            = SanitizeToUTF8 (es_magicItemDescription b)"
      unfolding es by (rule foldl_info_effect_first [OF pre b dn])
    then show "jget d ''description'' = Some (JString (SanitizeToUTF8 (es_magicItemDescription b)))"
      by (simp add: d spell_info_description)
  qed
  from p l none first show "\<exists>formId spell.
            snd (parse_formId formIdStr) = Some formId
            \<and> LookupByID h formId = Some (Spell spell)
            \<and> ((\<forall>e\<in>set (spell_effects spell). \<not> has_description e)
                  \<longrightarrow> jget d ''description'' = Some (JString []))
            \<and> (\<forall>pre e b post.
                  spell_effects spell = pre @ Some e # post
                  \<and> (\<forall>x\<in>set pre. \<not> has_description x)
                  \<and> baseEffect e = Some b \<and> es_magicItemDescription b \<noteq> []
                  \<longrightarrow> jget d ''description''
                        = Some (JString (SanitizeToUTF8 (es_magicItemDescription b))))"
    by blast
qed

theorem GetSpellInfoByFormId_description_witness:
  "GetSpellInfoByFormId binary32_ops example_host ''12fcd''
     = ([], Document (spell_info binary32_ops example_host ''12fcd'' 0x12FCD example_spell))
   \<and> jget (spell_info binary32_ops example_host ''12fcd'' 0x12FCD example_spell) ''description''
       = Some (JString ''Burns the target.'')
   \<and> GetSpellInfoByFormId binary32_ops example_host ''12fce''
     = ([], Document (spell_info binary32_ops example_host ''12fce'' 0x12FCE baseless_spell))
   \<and> jget (spell_info binary32_ops example_host ''12fce'' 0x12FCE baseless_spell) ''description''
       = Some (JString [])"
proof -
  have p1: "parse_formId ''12fcd'' = ([], Some 0x12FCD)"
    by (simp add: parse_defs)
  have g1: "GetSpellInfoByFormId binary32_ops example_host ''12fcd''
     = ([], Document (spell_info binary32_ops example_host ''12fcd'' 0x12FCD example_spell))"
    by (simp add: GetSpellInfoByFormId_def p1 example_host_def)
  have e1: "spell_effects example_spell = [] @ Some example_effect # []"
    "baseEffect example_effect = Some example_base"
    "es_magicItemDescription example_base \<noteq> []"
    by (simp_all add: example_spell_def example_effect_def example_base_def)
  have s1: "SanitizeToUTF8 (es_magicItemDescription example_base) = ''Burns the target.''"
    by (simp add: example_base_def SanitizeToUTF8_def sanitize_step_def byte_def)
  have p2: "parse_formId ''12fce'' = ([], Some 0x12FCE)"
    by (simp add: parse_defs)
  have g2: "GetSpellInfoByFormId binary32_ops example_host ''12fce''
     = ([], Document (spell_info binary32_ops example_host ''12fce'' 0x12FCE baseless_spell))"
    by (simp add: GetSpellInfoByFormId_def p2 example_host_def)
  have e2: "\<forall>e\<in>set (spell_effects baseless_spell). \<not> has_description e"
    by (simp add: baseless_spell_def has_description_def)
  have l1: "LookupByID example_host 0x12FCD = Some (Spell example_spell)"
    and l2: "LookupByID example_host 0x12FCE = Some (Spell baseless_spell)"
    by (simp_all add: example_host_def)
  from GetSpellInfoByFormId_description [of binary32_ops example_host "''12fcd''" "[]"
      "spell_info binary32_ops example_host ''12fcd'' 0x12FCD example_spell"] g1
  obtain formId spell where a: "snd (parse_formId ''12fcd'') = Some formId"
    and b: "LookupByID example_host formId = Some (Spell spell)"
    and c: "\<forall>pre e b post.
                  spell_effects spell = pre @ Some e # post
                  \<and> (\<forall>x\<in>set pre. \<not> has_description x)
                  \<and> baseEffect e = Some b \<and> es_magicItemDescription b \<noteq> []
                  \<longrightarrow> jget (spell_info binary32_ops example_host ''12fcd'' 0x12FCD example_spell)
                        ''description''
                        = Some (JString (SanitizeToUTF8 (es_magicItemDescription b)))"
    by blast
  from a p1 have "formId = 0x12FCD" by simp
  with b l1 have "spell = example_spell" by simp
  with c e1 have "jget (spell_info binary32_ops example_host ''12fcd'' 0x12FCD example_spell)
      ''description'' = Some (JString (SanitizeToUTF8 (es_magicItemDescription example_base)))"
    by (metis empty_iff list.set(1))
  with s1 have d1: "jget (spell_info binary32_ops example_host ''12fcd'' 0x12FCD example_spell)
      ''description'' = Some (JString ''Burns the target.'')"
    by simp
  from GetSpellInfoByFormId_description [of binary32_ops example_host "''12fce''" "[]"
      "spell_info binary32_ops example_host ''12fce'' 0x12FCE baseless_spell"] g2
  obtain formId' spell' where a': "snd (parse_formId ''12fce'') = Some formId'"
    and b': "LookupByID example_host formId' = Some (Spell spell')"
    and c': "(\<forall>e\<in>set (spell_effects spell'). \<not> has_description e)
                  \<longrightarrow> jget (spell_info binary32_ops example_host ''12fce'' 0x12FCE baseless_spell)
                        ''description'' = Some (JString [])"
    by blast
  from a' p2 have "formId' = 0x12FCE" by simp
  with b' l2 have "spell' = baseless_spell" by simp
  with c' e2 have d2: "jget (spell_info binary32_ops example_host ''12fce'' 0x12FCE baseless_spell)
      ''description'' = Some (JString [])"
    by blast
  from g1 d1 g2 d2 show ?thesis by blast
qed















section \<open>Properties of ScanSpellTomes\<close>

lemma scan_book_route:
  "scan_book dh flds st entry = foldl (scan_route dh flds) st (teaching_route entry)"
  by (simp add: scan_book_def teaching_route_def scan_route_def named_with_school_def
      route_record_def taught_id_def Let_def split: option.splits prod.splits)

lemma scan_books_routes:
  "foldl (scan_book dh flds) st books = foldl (scan_route dh flds) st (teaching_routes books)"
proof (induction books arbitrary: st)
  case Nil
  then show ?case by (simp add: teaching_routes_def)
next
  case (Cons entry books)
  then show ?case
    by (simp add: teaching_routes_def scan_book_route)
qed

lemma first_occurrences_unseen_Cons:
  "first_occurrences (filter (\<lambda>q. taught_id q \<notin> S) (r # rs))
     = (if taught_id r \<in> S then first_occurrences (filter (\<lambda>q. taught_id q \<notin> S) rs)
        else r # first_occurrences (filter (\<lambda>q. taught_id q \<notin> insert (taught_id r) S) rs))"
proof -
  have "filter (\<lambda>q. taught_id q \<noteq> taught_id r) (filter (\<lambda>q. taught_id q \<notin> S) rs)
          = filter (\<lambda>q. taught_id q \<notin> insert (taught_id r) S) rs"
    by (induction rs) auto
  then show ?thesis by simp
qed

lemma length_first_occurrences: "length (first_occurrences rs) \<le> length rs"
proof (induction rs rule: first_occurrences.induct)
  case 1
  then show ?case by simp
next
  case (2 r rs)
  have "length (filter (\<lambda>q. taught_id q \<noteq> taught_id r) rs) \<le> length rs"
    by simp
  with 2 have "length (first_occurrences (filter (\<lambda>q. taught_id q \<noteq> taught_id r) rs))
      \<le> length rs"
    by (rule order_trans)
  then show ?case by simp
qed

lemma length_first_occurrences_unseen:
  "length (first_occurrences (filter (\<lambda>q. taught_id q \<notin> S) rs)) \<le> length rs"
  using length_first_occurrences [of "filter (\<lambda>q. taught_id q \<notin> S) rs"]
    length_filter_le [of "\<lambda>q. taught_id q \<notin> S" rs]
  by (rule order_trans)

lemma kept_Nil: "kept S [] = []"
  by (simp add: kept_def)

lemma kept_Cons:
  "kept S (r # rs) = (if taught_id r \<in> S then kept S rs else r # kept (insert (taught_id r) S) rs)"
  unfolding kept_def by (rule first_occurrences_unseen_Cons)

lemma length_kept: "length (kept S rs) \<le> length rs"
  unfolding kept_def by (rule length_first_occurrences_unseen)

lemma scan_routes:
  "tomeArray (foldl (scan_route dh flds) st rs)
     = tomeArray st @ map (route_record dh flds) (filter named_with_school (kept (seenSpellIds st) rs))
   \<and> tomeCount (foldl (scan_route dh flds) st rs)
     = tomeCount st + int (length (filter named_with_school (kept (seenSpellIds st) rs)))
   \<and> skippedDuplicates (foldl (scan_route dh flds) st rs)
     = skippedDuplicates st + int (length rs) - int (length (kept (seenSpellIds st) rs))"
proof (induction rs arbitrary: st)
  case Nil
  then show ?case by (simp add: kept_Nil)
next
  case (Cons r rs)
  show ?case
  proof (cases "taught_id r \<in> seenSpellIds st")
    case True
    then have step: "scan_route dh flds st r = st\<lparr>skippedDuplicates := skippedDuplicates st + 1\<rparr>"
      by (simp add: scan_route_def)
    show ?thesis
      using Cons [of "st\<lparr>skippedDuplicates := skippedDuplicates st + 1\<rparr>"] True
      by (simp add: step kept_Cons)
  next
    case False
    show ?thesis
    proof (cases "named_with_school r")
      case True
      let ?st = "st\<lparr>seenSpellIds := insert (taught_id r) (seenSpellIds st),
              tomeArray := tomeArray st @ [route_record dh flds r],
              tomeCount := tomeCount st + 1\<rparr>"
      have step: "scan_route dh flds st r = ?st"
        using False True by (simp add: scan_route_def)
      show ?thesis
        using Cons [of ?st] False True by (simp add: step kept_Cons)
    next
      case nws: False
      let ?st = "st\<lparr>seenSpellIds := insert (taught_id r) (seenSpellIds st)\<rparr>"
      have step: "scan_route dh flds st r = ?st"
        using False nws by (simp add: scan_route_def)
      show ?thesis
        using Cons [of ?st] False nws by (simp add: step kept_Cons)
    qed
  qed
qed

lemma kept_empty: "kept {} rs = first_occurrences rs"
  by (simp add: kept_def)

lemma tome_scan_loop_routes:
  "tomeArray (tome_scan_loop dh flds)
     = map (route_record dh flds)
         (filter named_with_school (first_occurrences (teaching_routes (allBooks dh))))"
  "tomeCount (tome_scan_loop dh flds)
     = int (length (filter named_with_school (first_occurrences (teaching_routes (allBooks dh)))))"
  "skippedDuplicates (tome_scan_loop dh flds)
     = int (length (teaching_routes (allBooks dh)))
       - int (length (first_occurrences (teaching_routes (allBooks dh))))"
  using scan_routes [of dh flds
      "\<lparr> tomeArray = [], seenSpellIds = {}, tomeCount = 0, skippedDuplicates = 0 \<rparr>"
      "teaching_routes (allBooks dh)"]
  by (simp_all add: tome_scan_loop_def scan_books_routes kept_empty)

lemma set_first_occurrences: "set (first_occurrences rs) \<subseteq> set rs"
proof (induction rs rule: first_occurrences.induct)
  case 1
  then show ?case by simp
next
  case (2 r rs)
  then show ?case by auto
qed

lemma distinct_first_occurrences: "distinct (map taught_id (first_occurrences rs))"
proof (induction rs rule: first_occurrences.induct)
  case 1
  then show ?case by simp
next
  case (2 r rs)
  have "taught_id r \<notin> taught_id ` set (first_occurrences (filter (\<lambda>q. taught_id q \<noteq> taught_id r) rs))"
    using set_first_occurrences [of "filter (\<lambda>q. taught_id q \<noteq> taught_id r) rs"] by auto
  with 2 show ?case by simp
qed

lemma parse_formId_format: "parse_formId (format_formId v) = ([], Some v)"
proof -
  have p: "''0x'' = ''0x'' \<or> ''0x'' = ''0X''" by simp
  have s: "strip_0x (''0x'' @ digits8 v) = digits8 v"
    using p by (rule strip_0x_prefixed)
  have "parse_formId (''0x'' @ digits8 v) = ([], Some (word_of_nat (hex_number (digits8 v))))"
    using s length_digits8 [of v] digits8_xdigit [of v] by (rule parse_formId_clean)
  moreover have "word_of_nat (hex_number (digits8 v)) = v"
    unfolding hex_number_digits8 by simp
  ultimately show ?thesis
    unfolding format_formId_digits8 by (simp only:)
qed

lemma format_formId_inj:
  assumes "format_formId v = format_formId w"
  shows "v = w"
proof -
  have "parse_formId (format_formId v) = parse_formId (format_formId w)"
    using assms by (simp only:)
  then have "([] :: log_event list, Some v) = ([], Some w)"
    unfolding parse_formId_format .
  then show ?thesis by simp
qed

lemma jget_set_if:
  "jget (set_if flag k v obj) k' = (if flag \<and> k' = k then Some v else jget obj k')"
  by (simp add: set_if_def jget_jset)

lemma jget_optional_fields_formId:
  "jget (optional_fields dh flds spell minSkill obj) ''formId'' = jget obj ''formId''"
  unfolding optional_fields_def Let_def
  by (simp add: jget_jset jget_set_if split: option.splits)

lemma record_formId_route:
  "record_formId (route_record dh flds r) = Some (JString (format_formId (taught_id r)))"
  unfolding record_formId_def route_record_def tome_record_def essential_fields_def Let_def
  by (simp add: jget_optional_fields_formId jget_jset taught_id_def split: option.splits)

lemma distinct_route_records:
  assumes "distinct (map taught_id rs)"
  shows "distinct (map record_formId (map (route_record dh flds) rs))"
proof -
  have eq: "map record_formId (map (route_record dh flds) rs)
          = map (\<lambda>v. Some (JString (format_formId v))) (map taught_id rs)"
    by (simp add: record_formId_route)
  have "inj (\<lambda>v. Some (JString (format_formId v) :: 'b json))"
    by (auto simp: inj_on_def dest: format_formId_inj)
  then have "distinct (map (\<lambda>v. Some (JString (format_formId v) :: 'b json)) (map taught_id rs))"
    using assms by (subst distinct_map) (auto intro: inj_on_subset)
  then show ?thesis
    unfolding eq .
qed

lemma distinct_filter_map: "distinct (map f xs) \<Longrightarrow> distinct (map f (filter P xs))"
  by (induction xs) auto

lemma distinct_tome_records:
  "distinct (map record_formId (tomeArray (tome_scan_loop dh flds)))"
  unfolding tome_scan_loop_routes
  by (intro distinct_route_records distinct_filter_map distinct_first_occurrences)

lemma three_routes:
  assumes "(taught_id r1 = taught_id r2 \<and> taught_id r3 \<noteq> taught_id r1)
         \<or> (taught_id r1 = taught_id r3 \<and> taught_id r2 \<noteq> taught_id r1)
         \<or> (taught_id r2 = taught_id r3 \<and> taught_id r1 \<noteq> taught_id r2)"
  shows "length (first_occurrences [r1, r2, r3]) = 2"
  using assms by auto

text \<open>
  Claim C1. The records of a tome scan are, in order, the records of the teaching routes
  that remain when the routes are deduplicated by the identifier of the taught spell, the
  first occurrence in catalog order winning, and the routes whose spell has an empty name or
  no school are then dropped. The field \<open>formId\<close> of a record is the rendering of the
  identifier of the taught spell, and no two records of the document have the same
  \<open>formId\<close>. The counter of skipped duplicates is the number of routes that are not first
  occurrences, and the document reports the number of records as \<open>spellCount\<close>. For three
  teaching items, two for the same taught identifier and one for another, all named and
  with a school, there are exactly two records and one skipped duplicate.
\<close>

theorem ScanSpellTomes_dedup:
  "(\<exists>out. ScanSpellTomes systemInstructions timestamp (Some dh) config = JObject out
       \<and> jget out ''spells'' = Some (JArray (tomeArray (tome_scan_loop dh (cfg_fields config))))
       \<and> jget out ''spellCount''
           = Some (JInt (int (length (tomeArray (tome_scan_loop dh (cfg_fields config)))))))
   \<and> tomeArray (tome_scan_loop dh flds)
       = map (route_record dh flds)
           (filter named_with_school (first_occurrences (teaching_routes (allBooks dh))))
   \<and> (\<forall>r. record_formId (route_record dh flds r) = Some (JString (format_formId (taught_id r))))
   \<and> distinct (map record_formId (tomeArray (tome_scan_loop dh flds)))
   \<and> tomeCount (tome_scan_loop dh flds) = int (length (tomeArray (tome_scan_loop dh flds)))
   \<and> skippedDuplicates (tome_scan_loop dh flds)
       = int (length (teaching_routes (allBooks dh)))
         - int (length (first_occurrences (teaching_routes (allBooks dh))))
   \<and> (allBooks dh = [Some b1, Some b2, Some b3]
       \<and> TeachesSpell b1 \<and> TeachesSpell b2 \<and> TeachesSpell b3
       \<and> GetSpell b1 = Some s1 \<and> GetSpell b2 = Some s2 \<and> GetSpell b3 = Some s3
       \<and> named_with_school (b1, s1) \<and> named_with_school (b2, s2) \<and> named_with_school (b3, s3)
       \<and> ((spell_formID s1 = spell_formID s2 \<and> spell_formID s3 \<noteq> spell_formID s1)
          \<or> (spell_formID s1 = spell_formID s3 \<and> spell_formID s2 \<noteq> spell_formID s1)
          \<or> (spell_formID s2 = spell_formID s3 \<and> spell_formID s1 \<noteq> spell_formID s2))
       \<longrightarrow> length (tomeArray (tome_scan_loop dh flds)) = 2
           \<and> skippedDuplicates (tome_scan_loop dh flds) = 1)"
proof -
  have doc: "\<exists>out. ScanSpellTomes systemInstructions timestamp (Some dh) config = JObject out
       \<and> jget out ''spells'' = Some (JArray (tomeArray (tome_scan_loop dh (cfg_fields config))))
       \<and> jget out ''spellCount''
           = Some (JInt (int (length (tomeArray (tome_scan_loop dh (cfg_fields config))))))"
    by (simp add: ScanSpellTomes_def Let_def jget_jset)
  have count: "tomeCount (tome_scan_loop dh flds) = int (length (tomeArray (tome_scan_loop dh flds)))"
    by (simp add: tome_scan_loop_routes)
  have three: "allBooks dh = [Some b1, Some b2, Some b3]
       \<and> TeachesSpell b1 \<and> TeachesSpell b2 \<and> TeachesSpell b3
       \<and> GetSpell b1 = Some s1 \<and> GetSpell b2 = Some s2 \<and> GetSpell b3 = Some s3
       \<and> named_with_school (b1, s1) \<and> named_with_school (b2, s2) \<and> named_with_school (b3, s3)
       \<and> ((spell_formID s1 = spell_formID s2 \<and> spell_formID s3 \<noteq> spell_formID s1)
          \<or> (spell_formID s1 = spell_formID s3 \<and> spell_formID s2 \<noteq> spell_formID s1)
          \<or> (spell_formID s2 = spell_formID s3 \<and> spell_formID s1 \<noteq> spell_formID s2))
       \<longrightarrow> length (tomeArray (tome_scan_loop dh flds)) = 2
           \<and> skippedDuplicates (tome_scan_loop dh flds) = 1"
  proof
    assume a: "allBooks dh = [Some b1, Some b2, Some b3]
       \<and> TeachesSpell b1 \<and> TeachesSpell b2 \<and> TeachesSpell b3
       \<and> GetSpell b1 = Some s1 \<and> GetSpell b2 = Some s2 \<and> GetSpell b3 = Some s3
       \<and> named_with_school (b1, s1) \<and> named_with_school (b2, s2) \<and> named_with_school (b3, s3)
       \<and> ((spell_formID s1 = spell_formID s2 \<and> spell_formID s3 \<noteq> spell_formID s1)
          \<or> (spell_formID s1 = spell_formID s3 \<and> spell_formID s2 \<noteq> spell_formID s1)
          \<or> (spell_formID s2 = spell_formID s3 \<and> spell_formID s1 \<noteq> spell_formID s2))"
    then have routes: "teaching_routes (allBooks dh) = [(b1, s1), (b2, s2), (b3, s3)]"
      by (simp add: teaching_routes_def teaching_route_def)
    have two: "length (first_occurrences [(b1, s1), (b2, s2), (b3, s3)]) = 2"
      using a by (intro three_routes) (simp add: taught_id_def)
    have sub: "set (first_occurrences [(b1, s1), (b2, s2), (b3, s3)])
                 \<subseteq> {(b1, s1), (b2, s2), (b3, s3)}"
      using set_first_occurrences [of "[(b1, s1), (b2, s2), (b3, s3)]"] by simp
    have "filter named_with_school (first_occurrences [(b1, s1), (b2, s2), (b3, s3)])
            = first_occurrences [(b1, s1), (b2, s2), (b3, s3)]"
      using a sub by (intro filter_True) auto
    with two routes show "length (tomeArray (tome_scan_loop dh flds)) = 2
           \<and> skippedDuplicates (tome_scan_loop dh flds) = 1"
      by (simp add: tome_scan_loop_routes)
  qed
  from doc tome_scan_loop_routes(1) [of dh flds] record_formId_route [of dh flds]
    distinct_tome_records [of dh flds] count tome_scan_loop_routes(3) [of dh flds] three
  show ?thesis by blast
qed

theorem ScanSpellTomes_dedup_witness:
  "allBooks example_catalog = [Some tome1, Some tome2, Some tome3]
   \<and> GetSpell tome1 = Some example_spell \<and> GetSpell tome2 = Some example_spell
   \<and> GetSpell tome3 = Some sparks_spell
   \<and> spell_formID sparks_spell \<noteq> spell_formID example_spell
   \<and> length (tomeArray (tome_scan_loop example_catalog default_FieldConfig)) = 2
   \<and> skippedDuplicates (tome_scan_loop example_catalog default_FieldConfig) = 1"
proof -
  have books: "allBooks example_catalog = [Some tome1, Some tome2, Some tome3]"
    by (simp add: example_catalog_def)
  have teach: "TeachesSpell tome1 \<and> TeachesSpell tome2 \<and> TeachesSpell tome3"
    by (simp add: tome1_def tome2_def tome3_def)
  have spells: "GetSpell tome1 = Some example_spell \<and> GetSpell tome2 = Some example_spell
      \<and> GetSpell tome3 = Some sparks_spell"
    by (simp add: tome1_def tome2_def tome3_def)
  have ok: "named_with_school (tome1, example_spell) \<and> named_with_school (tome2, example_spell)
      \<and> named_with_school (tome3, sparks_spell)"
    by (simp add: named_with_school_def first_effect_school_def example_spell_def
        sparks_spell_def example_effect_def example_base_def)
  have ids: "spell_formID example_spell = spell_formID example_spell
      \<and> spell_formID sparks_spell \<noteq> spell_formID example_spell"
    by (simp add: sparks_spell_def example_spell_def)
  from ScanSpellTomes_dedup [where dh = example_catalog and flds = default_FieldConfig
      and ?b1.0 = tome1 and ?b2.0 = tome2 and ?b3.0 = tome3
      and ?s1.0 = example_spell and ?s2.0 = example_spell and ?s3.0 = sparks_spell]
    books teach spells ok ids
  show ?thesis by blast
qed

section \<open>Properties of ScanSpellsToJson\<close>

lemma starts_with_0x:
  "length name \<ge> 2 \<and> (take 2 name = ''0x'' \<or> take 2 name = ''0X'')
     \<longleftrightarrow> starts_with name ''0x'' \<or> starts_with name ''0X''"
proof -
  have a: "take 2 name = ''0x'' \<longleftrightarrow> prefix ''0x'' name"
    by (rule take_eq_prefix) simp
  have b: "take 2 name = ''0X'' \<longleftrightarrow> prefix ''0X'' name"
    by (rule take_eq_prefix) simp
  have "prefix ''0x'' name \<Longrightarrow> length name \<ge> 2" "prefix ''0X'' name \<Longrightarrow> length name \<ge> 2"
    by (auto dest: prefix_length_le)
  then show ?thesis
    unfolding starts_with_def a b by blast
qed

lemma name_like_identifier_code:
  "name_like_identifier name \<longleftrightarrow>
     (length name \<ge> 2 \<and> (take 2 name = ''0x'' \<or> take 2 name = ''0X''))
     \<or> (list_all (\<lambda>c. isxdigit c \<or> c = CHR '' '') name \<and> length name \<ge> 6)"
  unfolding name_like_identifier_def starts_with_0x list_all_iff by blast

text \<open>
  The three tests of the loop that the exclusions restate: the school read from the first
  effect, the comparison of the cost with \<open>1000.0f\<close>, and the search for an effect with
  a real name.
\<close>

lemma first_effect_school_skill:
  "fst (first_effect_school spell)
     = (case first_effect_skill spell of None \<Rightarrow> kNone | Some av \<Rightarrow> av)"
  by (simp add: first_effect_school_def first_effect_skill_def
      split: list.splits option.splits)

lemma no_school_iff:
  "fst (first_effect_school spell) = kNone
     \<longleftrightarrow> first_effect_skill spell = None \<or> first_effect_skill spell = Some kNone"
  unfolding first_effect_school_skill by (auto split: option.splits)

lemma cost_test_iff:
  "f_gt binary32_ops cost (f_lit binary32_ops 1000) \<longleftrightarrow> exceeds cost 1000"
  by (simp add: binary32_ops_simps float_gt_1000)

lemma real_name_iff:
  "effect_has_real_name effect
     \<longleftrightarrow> (\<exists>e b. effect = Some e \<and> baseEffect e = Some b \<and> length (es_fullName b) > 2
              \<and> \<not> starts_with (es_fullName b) ''0x'' \<and> \<not> starts_with (es_fullName b) ''0X'')"
proof -
  have "length name > 2 \<Longrightarrow>
          (take 2 name \<noteq> ''0x'' \<and> take 2 name \<noteq> ''0X'')
            \<longleftrightarrow> (\<not> starts_with name ''0x'' \<and> \<not> starts_with name ''0X'')" for name
    using starts_with_0x [of name] by auto
  then show ?thesis
    unfolding effect_has_real_name_def Let_def
    by (auto split: option.splits)
qed

lemma effect_names_set:
  "set (effect_names spell)
     = {es_fullName b | e b. Some e \<in> set (spell_effects spell) \<and> baseEffect e = Some b}"
proof -
  have "set (present_effects es) = {(e, b). Some e \<in> set es \<and> baseEffect e = Some b}" for es :: "'a Effect option list"
    by (induction es) (auto simp: present_effects_def split: option.splits)
  then show ?thesis
    unfolding effect_names_def by force
qed

lemma real_names_iff:
  "list_ex effect_has_real_name (spell_effects spell)
     \<longleftrightarrow> (\<exists>name\<in>set (effect_names spell).
            length name > 2 \<and> \<not> starts_with name ''0x'' \<and> \<not> starts_with name ''0X'')"
  unfolding list_ex_iff real_name_iff effect_names_set by blast

lemma excluded_code:
  "excluded spell \<longleftrightarrow>
     name_like_identifier (spell_fullName spell)
     \<or> (\<exists>editorIdStr. spell_editorID spell = Some editorIdStr \<and> isNonPlayerSpell editorIdStr)
     \<or> fst (first_effect_school spell) = kNone
     \<or> f_gt binary32_ops (CalculateMagickaCost spell) (f_lit binary32_ops 1000)
     \<or> \<not> list_ex effect_has_real_name (spell_effects spell)"
  unfolding excluded_def no_school_iff cost_test_iff real_names_iff by blast

lemma spellArray_skipped: "spellArray (skipped st) = spellArray st"
  by (simp add: skipped_def)

lemma spellArray_filtered: "spellArray (filtered st) = spellArray st"
  by (simp add: filtered_def)

lemma scannedCount_skipped: "scannedCount (skipped st) = scannedCount st"
  by (simp add: skipped_def)

lemma scannedCount_filtered: "scannedCount (filtered st) = scannedCount st"
  by (simp add: filtered_def)

lemma scan_spell_kept:
  assumes "keeps spell"
  shows "scan_spell binary32_ops dh flds st (Some spell)
           = st\<lparr>spellArray := spellArray st @ [spell_record dh flds spell],
                scannedCount := scannedCount st + 1\<rparr>"
proof -
  from assms obtain editorIdStr where e: "spell_editorID spell = Some editorIdStr"
    "editorIdStr \<noteq> []" "\<not> isNonPlayerSpell editorIdStr"
    and k: "data_spellType spell = kSpell" "spell_fullName spell \<noteq> []"
    and n: "\<not> name_like_identifier (spell_fullName spell)"
    and s: "fst (first_effect_school spell) \<noteq> kNone"
    and c: "\<not> f_gt binary32_ops (CalculateMagickaCost spell) (f_lit binary32_ops 1000)"
    and v: "list_ex effect_has_real_name (spell_effects spell)"
    unfolding keeps_def scan_candidate_def excluded_code by auto
  from n have n': "\<not> (length (spell_fullName spell) \<ge> 2
        \<and> (take 2 (spell_fullName spell) = ''0x'' \<or> take 2 (spell_fullName spell) = ''0X''))"
    "\<not> (list_all (\<lambda>c. isxdigit c \<or> c = CHR '' '') (spell_fullName spell)
        \<and> length (spell_fullName spell) \<ge> 6)"
    unfolding name_like_identifier_code by blast+
  obtain school minSkill where f: "first_effect_school spell = (school, minSkill)"
    by (cases "first_effect_school spell") auto
  with s have s': "school \<noteq> kNone" by simp
  show ?thesis
    unfolding scan_spell_def Let_def
    using e k n' c v s' f by (auto simp: spell_record_def)
qed

lemma scan_spell_dropped:
  assumes "\<not> keeps spell"
  shows "spellArray (scan_spell binary32_ops dh flds st (Some spell)) = spellArray st
       \<and> scannedCount (scan_spell binary32_ops dh flds st (Some spell)) = scannedCount st"
proof -
  obtain school minSkill where f: "first_effect_school spell = (school, minSkill)"
    by (cases "first_effect_school spell") auto
  show ?thesis
  proof (cases "scan_candidate spell")
    case False
    then show ?thesis
      unfolding scan_spell_def Let_def scan_candidate_def
      by (auto simp: spellArray_skipped scannedCount_skipped split: option.splits)
  next
    case True
    then obtain editorIdStr where e: "spell_editorID spell = Some editorIdStr"
      "editorIdStr \<noteq> []" and k: "data_spellType spell = kSpell" "spell_fullName spell \<noteq> []"
      by (auto simp: scan_candidate_def)
    from True assms have x: "excluded spell"
      by (simp add: keeps_def)
    show ?thesis
    proof (cases "name_like_identifier (spell_fullName spell)")
      case True
      then have "(length (spell_fullName spell) \<ge> 2
        \<and> (take 2 (spell_fullName spell) = ''0x'' \<or> take 2 (spell_fullName spell) = ''0X''))
        \<or> (list_all (\<lambda>c. isxdigit c \<or> c = CHR '' '') (spell_fullName spell)
            \<and> length (spell_fullName spell) \<ge> 6)"
        unfolding name_like_identifier_code .
      then show ?thesis
        unfolding scan_spell_def Let_def using e k
        by (auto simp: spellArray_filtered scannedCount_filtered)
    next
      case False
      then have n': "\<not> (length (spell_fullName spell) \<ge> 2
        \<and> (take 2 (spell_fullName spell) = ''0x'' \<or> take 2 (spell_fullName spell) = ''0X''))"
        "\<not> (list_all (\<lambda>c. isxdigit c \<or> c = CHR '' '') (spell_fullName spell)
            \<and> length (spell_fullName spell) \<ge> 6)"
        unfolding name_like_identifier_code by blast+
      from x False e have rest: "isNonPlayerSpell editorIdStr \<or> school = kNone
          \<or> f_gt binary32_ops (CalculateMagickaCost spell) (f_lit binary32_ops 1000)
          \<or> \<not> list_ex effect_has_real_name (spell_effects spell)"
        using f unfolding excluded_code by auto
      show ?thesis
        unfolding scan_spell_def Let_def using e k n' rest f
        by (auto simp: spellArray_filtered scannedCount_filtered spellArray_skipped
            scannedCount_skipped)
    qed
  qed
qed

lemma scan_spells:
  "spellArray (foldl (scan_spell binary32_ops dh flds) st entries)
     = spellArray st @ map (spell_record dh flds) (filter keeps (present entries))
   \<and> scannedCount (foldl (scan_spell binary32_ops dh flds) st entries)
     = scannedCount st + int (length (filter keeps (present entries)))"
proof (induction entries arbitrary: st)
  case Nil
  then show ?case by (simp add: present_def)
next
  case (Cons entry entries)
  show ?case
  proof (cases entry)
    case None
    then have "scan_spell binary32_ops dh flds st entry = st"
      by (simp add: scan_spell_def)
    with Cons [of st] None show ?thesis
      by (simp add: present_def)
  next
    case (Some spell)
    show ?thesis
    proof (cases "keeps spell")
      case True
      from Cons [of "scan_spell binary32_ops dh flds st (Some spell)"] True Some show ?thesis
        by (simp add: scan_spell_kept present_def)
    next
      case False
      from Cons [of "scan_spell binary32_ops dh flds st (Some spell)"]
        scan_spell_dropped [OF False, of dh flds st] False Some
      show ?thesis
        by (simp add: present_def)
    qed
  qed
qed

lemma ScanSpellsToJson_Some:
  "ScanSpellsToJson binary32_ops (Some dh) flds
     = JArray (map (spell_record dh flds) (filter keeps (present (allSpells dh))))"
  using scan_spells [of dh flds
      "\<lparr> spellArray = [], scannedCount = 0, skippedCount = 0, filteredCount = 0 \<rparr>" "allSpells dh"]
  by (simp add: ScanSpellsToJson_def full_scan_loop_def)

lemma full_scan_loop_count:
  "scannedCount (full_scan_loop binary32_ops dh flds)
     = int (length (filter keeps (present (allSpells dh))))"
  using scan_spells [of dh flds
      "\<lparr> spellArray = [], scannedCount = 0, skippedCount = 0, filteredCount = 0 \<rparr>" "allSpells dh"]
  by (simp add: full_scan_loop_def)

lemma record_formId_spell:
  "record_formId (spell_record dh flds spell) = Some (JString (format_formId (spell_formID spell)))"
  unfolding record_formId_def spell_record_def full_scan_record_def essential_fields_def Let_def
  by (simp add: jget_optional_fields_formId jget_jset)

lemma jget_optional_fields_school:
  "jget (optional_fields dh flds spell minSkill obj) ''school'' = jget obj ''school''"
  unfolding optional_fields_def Let_def
  by (simp add: jget_jset jget_set_if split: option.splits)

lemma record_school_spell:
  "record_school (spell_record dh flds spell)
     = Some (JString (GetSchoolName (fst (first_effect_school spell))))"
  unfolding record_school_def spell_record_def full_scan_record_def essential_fields_def Let_def
  by (simp add: jget_optional_fields_school jget_jset)

lemma record_school_unknown:
  assumes "first_effect_skill spell = Some av" and "\<not> magic_school av"
  shows "record_school (spell_record dh flds spell) = Some (JString ''Unknown'')"
  using assms unfolding record_school_spell first_effect_school_skill
  by (cases av) (simp_all add: GetSchoolName_def magic_school_def)

text \<open>The example spells.\<close>

lemma not_name_like_Flames: "\<not> name_like_identifier ''Flames''"
  by (simp add: name_like_identifier_def starts_with_def isxdigit_def byte_def)

lemma not_name_like_Sparks: "\<not> name_like_identifier ''Sparks''"
  by (simp add: name_like_identifier_def starts_with_def isxdigit_def byte_def)

lemma name_like_0x: "name_like_identifier ''0x000A26FF''"
  by (simp add: name_like_identifier_def starts_with_def)

lemma name_like_DEADBEEF: "name_like_identifier ''DEADBEEF''"
  by (simp add: name_like_identifier_def starts_with_def isxdigit_def byte_def)

lemma not_name_like_Up: "\<not> name_like_identifier ''Up''"
  by (simp add: name_like_identifier_def starts_with_def)

lemma player_Flames: "\<not> isNonPlayerSpell ''Flames''"
  by code_simp

lemma player_Sparks: "\<not> isNonPlayerSpell ''Sparks''"
  by code_simp

lemma example_skill: "first_effect_skill example_spell = Some kDestruction"
  by (simp add: first_effect_skill_def example_spell_def example_effect_def example_base_def)

lemma example_effect_names: "effect_names example_spell = [''Fire Damage'']"
  by (simp add: effect_names_def present_effects_def example_spell_def example_effect_def
      example_base_def)

lemma example_cost: "\<not> exceeds (Finite 14 0) 1000" "exceeds (Finite 1500 0) 1000"
  "\<not> exceeds (Finite 1000 0) 1000"
  by (simp_all add: exceeds_def dyadic_def)

lemma real_Fire_Damage:
  "length ''Fire Damage'' > 2" "\<not> starts_with ''Fire Damage'' ''0x''"
  "\<not> starts_with ''Fire Damage'' ''0X''" "\<not> name_like_identifier ''Fire Damage''"
  by (simp_all add: starts_with_def name_like_identifier_def isxdigit_def byte_def)

lemmas example_spell_simps = scan_candidate_def excluded_def claimed_excluded_def
  first_effect_skill_def effect_names_def present_effects_def magic_school_def
  example_spell_def example_effect_def example_base_def

lemma keeps_example_spell: "keeps example_spell"
  using not_name_like_Flames player_Flames example_cost real_Fire_Damage
  by (simp add: keeps_def example_spell_simps)

lemma keeps_sparks_spell: "keeps sparks_spell"
  using not_name_like_Sparks player_Sparks example_cost real_Fire_Damage
  by (simp add: keeps_def sparks_spell_def example_spell_simps)

lemma unnamed_spell_facts:
  "scan_candidate unnamed_spell" "spell_fullName unnamed_spell = ''0x000A26FF''"
  "excluded unnamed_spell"
  "\<not> excluded (unnamed_spell \<lparr> spell_fullName := ''Flames'' \<rparr>)"
  using name_like_0x not_name_like_Flames player_Flames example_cost real_Fire_Damage
  by (simp_all add: unnamed_spell_def example_spell_simps)

lemma costly_spell_facts:
  "scan_candidate costly_spell"
  "finite_value (CalculateMagickaCost costly_spell) = Some 1500"
  "excluded costly_spell"
  "\<not> excluded (costly_spell \<lparr> CalculateMagickaCost := Finite 1000 0 \<rparr>)"
  using not_name_like_Flames player_Flames example_cost real_Fire_Damage
  by (simp_all add: costly_spell_def example_spell_simps finite_value_def dyadic_def)

lemma effectless_spell_facts:
  "scan_candidate effectless_spell" "spell_effects effectless_spell = []"
  "excluded effectless_spell"
  by (simp_all add: effectless_spell_def example_spell_simps)

text \<open>
  Claim C2, as the code has it. The records of a full scan are, in catalog order, one
  record for every entity of the spell kind with a name and an editor identifier that are
  not empty and that is not excluded, and the record of an entity carries the rendering of
  its identifier, and the school \<open>Unknown\<close> when the skill of its first effect is none of
  the five schools. An entity is excluded when its name starts with \<open>0x\<close> or \<open>0X\<close>, or
  consists of hexadecimal digits and spaces only and has length at least 6; or the
  classifier excludes its editor identifier; or its first effect yields no skill (there is
  no effect, or the first entry of the effect list is absent or has no base effect) or the
  skill \<open>kNone\<close>; or its computed magicka cost exceeds 1000; or none of its effects has a
  name that is longer than two characters and does not start with \<open>0x\<close> or \<open>0X\<close>.
  Without a data handler the scan returns the empty array. An entity named \<open>0x000A26FF\<close>
  is excluded although it is not when named \<open>Flames\<close>; an entity with cost 1500 is
  excluded although it is not with cost 1000; an entity with no effects is excluded.
\<close>

theorem ScanSpellsToJson_filter:
  "ScanSpellsToJson binary32_ops (Some dh) flds
     = JArray (map (spell_record dh flds)
                 (filter (\<lambda>spell. scan_candidate spell \<and> \<not> excluded spell)
                    (present (allSpells dh))))
   \<and> ScanSpellsToJson binary32_ops None flds = JArray []
   \<and> scannedCount (full_scan_loop binary32_ops dh flds)
       = int (length (filter (\<lambda>spell. scan_candidate spell \<and> \<not> excluded spell)
                        (present (allSpells dh))))
   \<and> record_formId (spell_record dh flds spell)
       = Some (JString (format_formId (spell_formID spell)))
   \<and> (first_effect_skill spell = Some av \<and> \<not> magic_school av
        \<longrightarrow> record_school (spell_record dh flds spell) = Some (JString ''Unknown''))
   \<and> scan_candidate unnamed_spell \<and> spell_fullName unnamed_spell = ''0x000A26FF''
   \<and> excluded unnamed_spell
   \<and> \<not> excluded (unnamed_spell \<lparr> spell_fullName := ''Flames'' \<rparr>)
   \<and> scan_candidate costly_spell
   \<and> finite_value (CalculateMagickaCost costly_spell) = Some 1500
   \<and> excluded costly_spell
   \<and> \<not> excluded (costly_spell \<lparr> CalculateMagickaCost := Finite 1000 0 \<rparr>)
   \<and> scan_candidate effectless_spell \<and> spell_effects effectless_spell = []
   \<and> excluded effectless_spell"
proof -
  have k: "keeps = (\<lambda>spell. scan_candidate spell \<and> \<not> excluded spell)"
    by (simp add: keeps_def [abs_def])
  have some: "ScanSpellsToJson binary32_ops (Some dh) flds
     = JArray (map (spell_record dh flds)
                 (filter (\<lambda>spell. scan_candidate spell \<and> \<not> excluded spell)
                    (present (allSpells dh))))"
    using ScanSpellsToJson_Some [of dh flds] unfolding k .
  have none: "ScanSpellsToJson binary32_ops None flds = JArray []"
    by (simp add: ScanSpellsToJson_def)
  have count: "scannedCount (full_scan_loop binary32_ops dh flds)
       = int (length (filter (\<lambda>spell. scan_candidate spell \<and> \<not> excluded spell)
                        (present (allSpells dh))))"
    using full_scan_loop_count [of dh flds] unfolding k .
  have unknown: "first_effect_skill spell = Some av \<and> \<not> magic_school av
        \<longrightarrow> record_school (spell_record dh flds spell) = Some (JString ''Unknown'')"
    using record_school_unknown [of spell av dh flds] by simp
  from some none count record_formId_spell [of dh flds spell] unknown
    unnamed_spell_facts costly_spell_facts effectless_spell_facts
  show ?thesis by (intro conjI)
qed

theorem ScanSpellsToJson_filter_witness:
  "ScanSpellsToJson binary32_ops (Some example_catalog) default_FieldConfig
     = JArray [spell_record example_catalog default_FieldConfig example_spell,
               spell_record example_catalog default_FieldConfig sparks_spell]
   \<and> scannedCount (full_scan_loop binary32_ops example_catalog default_FieldConfig) = 2"
proof -
  have p: "present (allSpells example_catalog)
      = [example_spell, unnamed_spell, costly_spell, effectless_spell, sparks_spell]"
    by (simp add: present_def example_catalog_def)
  have f: "filter (\<lambda>spell. scan_candidate spell \<and> \<not> excluded spell)
             [example_spell, unnamed_spell, costly_spell, effectless_spell, sparks_spell]
           = [example_spell, sparks_spell]"
    using keeps_example_spell keeps_sparks_spell unnamed_spell_facts(3) costly_spell_facts(3)
      effectless_spell_facts(3)
    by (simp add: keeps_def)
  note inst = ScanSpellsToJson_filter [of example_catalog default_FieldConfig]
  have a: "ScanSpellsToJson binary32_ops (Some example_catalog) default_FieldConfig
     = JArray [spell_record example_catalog default_FieldConfig example_spell,
               spell_record example_catalog default_FieldConfig sparks_spell]"
    using inst [THEN conjunct1] unfolding p f by simp
  have b: "scannedCount (full_scan_loop binary32_ops example_catalog default_FieldConfig) = 2"
    using inst [THEN conjunct2, THEN conjunct2, THEN conjunct1] unfolding p f by simp
  from a b show ?thesis by (intro conjI)
qed

text \<open>
  The claim as the specification states it fails on three spells that are the example
  spell but for their only effect. An effect whose skill is none of the five schools
  yields no school of magic, yet the spell is kept, with the school \<open>Unknown\<close>. An
  effect named \<open>DEADBEEF\<close> has a name that looks like a raw identifier, yet the spell is
  kept. An effect named \<open>Up\<close> has a name that is not empty and does not look like a raw
  identifier, so that the spell passes every check the specification lists, yet it gets
  no record.
\<close>

theorem ScanSpellsToJson_school_and_effect_names:
  "scan_candidate enchanting_spell
   \<and> first_effect_skill enchanting_spell = Some (kOtherActorValue 23)
   \<and> \<not> magic_school (kOtherActorValue 23)
   \<and> claimed_excluded enchanting_spell
   \<and> ScanSpellsToJson binary32_ops (Some (catalog_of enchanting_spell)) default_FieldConfig
       = JArray [spell_record (catalog_of enchanting_spell) default_FieldConfig enchanting_spell]
   \<and> record_school (spell_record (catalog_of enchanting_spell) default_FieldConfig enchanting_spell)
       = Some (JString ''Unknown'')
   \<and> scan_candidate hex_effect_spell
   \<and> effect_names hex_effect_spell = [''DEADBEEF'']
   \<and> name_like_identifier ''DEADBEEF''
   \<and> claimed_excluded hex_effect_spell
   \<and> ScanSpellsToJson binary32_ops (Some (catalog_of hex_effect_spell)) default_FieldConfig
       = JArray [spell_record (catalog_of hex_effect_spell) default_FieldConfig hex_effect_spell]
   \<and> scan_candidate short_effect_spell
   \<and> effect_names short_effect_spell = [''Up'']
   \<and> \<not> name_like_identifier ''Up''
   \<and> \<not> claimed_excluded short_effect_spell
   \<and> ScanSpellsToJson binary32_ops (Some (catalog_of short_effect_spell)) default_FieldConfig
       = JArray []"
proof -
  have p: "present (allSpells (catalog_of spell)) = [spell]" for spell
    by (simp add: present_def catalog_of_def)
  have scan: "ScanSpellsToJson binary32_ops (Some (catalog_of spell)) default_FieldConfig
      = JArray (map (spell_record (catalog_of spell) default_FieldConfig) (filter keeps [spell]))"
    for spell
    using ScanSpellsToJson_Some [of "catalog_of spell" default_FieldConfig] unfolding p .
  have e1: "scan_candidate enchanting_spell"
    "first_effect_skill enchanting_spell = Some (kOtherActorValue 23)"
    "\<not> magic_school (kOtherActorValue 23)"
    "claimed_excluded enchanting_spell"
    "keeps enchanting_spell"
    using not_name_like_Flames player_Flames example_cost real_Fire_Damage
    by (simp_all add: keeps_def enchanting_spell_def example_spell_simps)
  have e2: "record_school (spell_record (catalog_of enchanting_spell) default_FieldConfig
                             enchanting_spell) = Some (JString ''Unknown'')"
    unfolding record_school_spell first_effect_school_skill e1(2)
    by (simp add: GetSchoolName_def)
  have h1: "scan_candidate hex_effect_spell"
    "effect_names hex_effect_spell = [''DEADBEEF'']"
    by (simp_all add: hex_effect_spell_def example_spell_simps)
  have h2: "length ''DEADBEEF'' > 2" "\<not> starts_with ''DEADBEEF'' ''0x''"
    "\<not> starts_with ''DEADBEEF'' ''0X''"
    by (simp_all add: starts_with_def)
  have h3: "claimed_excluded hex_effect_spell" "keeps hex_effect_spell"
    using not_name_like_Flames player_Flames example_cost name_like_DEADBEEF h2
    by (simp_all add: keeps_def hex_effect_spell_def example_spell_simps)
  have s1: "scan_candidate short_effect_spell"
    "effect_names short_effect_spell = [''Up'']"
    by (simp_all add: short_effect_spell_def example_spell_simps)
  have s2: "\<not> claimed_excluded short_effect_spell" "\<not> keeps short_effect_spell"
    using not_name_like_Flames player_Flames example_cost not_name_like_Up
    by (simp_all add: keeps_def short_effect_spell_def example_spell_simps)
  have r1: "ScanSpellsToJson binary32_ops (Some (catalog_of enchanting_spell)) default_FieldConfig
       = JArray [spell_record (catalog_of enchanting_spell) default_FieldConfig enchanting_spell]"
    unfolding scan using e1(5) by simp
  have r2: "ScanSpellsToJson binary32_ops (Some (catalog_of hex_effect_spell)) default_FieldConfig
       = JArray [spell_record (catalog_of hex_effect_spell) default_FieldConfig hex_effect_spell]"
    unfolding scan using h3(2) by simp
  have r3: "ScanSpellsToJson binary32_ops (Some (catalog_of short_effect_spell)) default_FieldConfig
       = JArray []"
    unfolding scan using s2(2) by simp
  from e1(1-4) r1 e2 h1 name_like_DEADBEEF h3(1) r2 s1 not_name_like_Up s2(1) r3
  show ?thesis by (intro conjI)
qed

section \<open>Properties of ParseScanConfig\<close>

lemma run_absent: "\<not> json_contains f key \<Longrightarrow> run (read_flag f key assign) st = st"
  by (cases st) (simp add: run_def read_flag_def split: option.splits)

lemma run_flag_other:
  assumes "\<And>b c. get (assign b c) = get c"
  shows "get (cfg_fields (fst (run (read_flag f key assign) st))) = get (cfg_fields (fst st))"
  using assms
  by (cases st) (simp add: run_def read_flag_def split: option.splits sum.splits)

lemma run_flag_prompt:
  "treeRulesPrompt (fst (run (read_flag f key assign) st)) = treeRulesPrompt (fst st)"
  by (cases st) (simp add: run_def read_flag_def split: option.splits sum.splits)

lemma run_prompt_fields:
  "cfg_fields (fst (run (read_prompt j) st)) = cfg_fields (fst st)"
  by (cases st) (simp add: run_def read_prompt_def split: option.splits sum.splits)

lemma run_prompt_absent:
  "\<not> json_contains j ''treeRulesPrompt'' \<Longrightarrow> run (read_prompt j) st = st"
  by (cases st) (simp add: run_def read_prompt_def split: option.splits)

lemmas other_flag =
  run_flag_other [where get = editorId] run_flag_other [where get = magickaCost]
  run_flag_other [where get = minimumSkill] run_flag_other [where get = castingType]
  run_flag_other [where get = delivery] run_flag_other [where get = chargeTime]
  run_flag_other [where get = plugin] run_flag_other [where get = effects]
  run_flag_other [where get = effectNames] run_flag_other [where get = "keywords"]

lemma read_fields_absent:
  "\<not> json_contains f ''editorId''
     \<Longrightarrow> editorId (cfg_fields (fst (read_fields f st))) = editorId (cfg_fields (fst st))"
  "\<not> json_contains f ''magickaCost''
     \<Longrightarrow> magickaCost (cfg_fields (fst (read_fields f st))) = magickaCost (cfg_fields (fst st))"
  "\<not> json_contains f ''minimumSkill''
     \<Longrightarrow> minimumSkill (cfg_fields (fst (read_fields f st))) = minimumSkill (cfg_fields (fst st))"
  "\<not> json_contains f ''castingType''
     \<Longrightarrow> castingType (cfg_fields (fst (read_fields f st))) = castingType (cfg_fields (fst st))"
  "\<not> json_contains f ''delivery''
     \<Longrightarrow> delivery (cfg_fields (fst (read_fields f st))) = delivery (cfg_fields (fst st))"
  "\<not> json_contains f ''chargeTime''
     \<Longrightarrow> chargeTime (cfg_fields (fst (read_fields f st))) = chargeTime (cfg_fields (fst st))"
  "\<not> json_contains f ''plugin''
     \<Longrightarrow> plugin (cfg_fields (fst (read_fields f st))) = plugin (cfg_fields (fst st))"
  "\<not> json_contains f ''effects''
     \<Longrightarrow> effects (cfg_fields (fst (read_fields f st))) = effects (cfg_fields (fst st))"
  "\<not> json_contains f ''effectNames''
     \<Longrightarrow> effectNames (cfg_fields (fst (read_fields f st))) = effectNames (cfg_fields (fst st))"
  "\<not> json_contains f ''keywords''
     \<Longrightarrow> keywords (cfg_fields (fst (read_fields f st))) = keywords (cfg_fields (fst st))"
  unfolding read_fields_def by (simp_all add: run_absent other_flag)

lemma read_fields_prompt:
  "treeRulesPrompt (fst (read_fields f st)) = treeRulesPrompt (fst st)"
  unfolding read_fields_def by (simp add: run_flag_prompt)

lemma ParseScanConfig_parsed:
  "jsonConfig \<noteq> [] \<Longrightarrow> parse jsonConfig = Some j
     \<Longrightarrow> ParseScanConfig parse jsonConfig = fst (read_document j (default_ScanConfig, None))"
  by (simp add: ParseScanConfig_def try_block_def)

lemma ParseScanConfig_unparsed:
  "parse jsonConfig = None \<Longrightarrow> ParseScanConfig parse jsonConfig = default_ScanConfig"
  by (simp add: ParseScanConfig_def try_block_def)

lemma ParseScanConfig_empty: "ParseScanConfig parse [] = default_ScanConfig"
  by (simp add: ParseScanConfig_def)

lemma read_document_flag_absent:
  assumes "(key, flag) \<in> set flag_table" and "\<not> flag_present j key"
  shows "flag (cfg_fields (fst (read_document j st))) = flag (cfg_fields (fst st))"
proof (cases "json_contains j ''fields''")
  case False
  then show ?thesis
    by (simp add: read_document_def run_prompt_fields)
next
  case True
  with assms(2) have absent: "\<not> json_contains (json_at j ''fields'') key"
    by (simp add: flag_present_def)
  have "flag (cfg_fields (fst (read_fields (json_at j ''fields'') st))) = flag (cfg_fields (fst st))"
    using assms(1) absent unfolding flag_table_def
    by (auto simp: read_fields_absent)
  with True show ?thesis
    by (simp add: read_document_def run_prompt_fields)
qed

lemma read_document_prompt_absent:
  assumes "\<not> json_contains j ''treeRulesPrompt''"
  shows "treeRulesPrompt (fst (read_document j st)) = treeRulesPrompt (fst st)"
  using assms by (simp add: read_document_def run_prompt_absent read_fields_prompt)

lemma ParseScanConfig_flag_absent:
  assumes "parse jsonConfig = Some j" and "(key, flag) \<in> set flag_table"
    and "\<not> flag_present j key"
  shows "flag (cfg_fields (ParseScanConfig parse jsonConfig)) = flag default_FieldConfig"
proof (cases "jsonConfig = []")
  case True
  then show ?thesis
    by (simp add: ParseScanConfig_def default_ScanConfig_def)
next
  case False
  from ParseScanConfig_parsed [of jsonConfig parse j, OF False assms(1)]
    read_document_flag_absent [OF assms(2,3), of "(default_ScanConfig, None)"]
  show ?thesis by (simp add: default_ScanConfig_def)
qed

lemma ParseScanConfig_prompt_absent:
  assumes "parse jsonConfig = Some j" and "\<not> json_contains j ''treeRulesPrompt''"
  shows "treeRulesPrompt (ParseScanConfig parse jsonConfig) = []"
proof (cases "jsonConfig = []")
  case True
  then show ?thesis
    by (simp add: ParseScanConfig_def default_ScanConfig_def)
next
  case False
  from ParseScanConfig_parsed [of jsonConfig parse j, OF False assms(1)]
    read_document_prompt_absent [OF assms(2), of "(default_ScanConfig, None)"]
  show ?thesis by (simp add: default_ScanConfig_def)
qed

lemma read_flag_same:
  "same_entry f f' key \<Longrightarrow> read_flag f key assign = read_flag f' key assign"
  by (rule ext) (simp add: read_flag_def same_entry_def)

lemma read_fields_same:
  assumes "list_all (\<lambda>key. same_entry f f' key) (map fst flag_table)"
  shows "read_fields f st = read_fields f' st"
proof -
  from assms have "same_entry f f' ''editorId''" "same_entry f f' ''magickaCost''"
    "same_entry f f' ''minimumSkill''" "same_entry f f' ''castingType''"
    "same_entry f f' ''delivery''" "same_entry f f' ''chargeTime''"
    "same_entry f f' ''plugin''" "same_entry f f' ''effects''"
    "same_entry f f' ''effectNames''" "same_entry f f' ''keywords''"
    by (simp_all add: flag_table_def)
  then show ?thesis
    unfolding read_fields_def by (simp only: read_flag_same [of f f'])
qed

lemma read_document_same:
  assumes "same_known_keys j j'"
  shows "read_document j st = read_document j' st"
proof -
  from assms have p: "read_prompt j = read_prompt j'"
    by (intro ext) (simp add: read_prompt_def same_known_keys_def same_entry_def)
  from assms have c: "json_contains j ''fields'' = json_contains j' ''fields''"
    by (simp add: same_known_keys_def)
  from assms have "read_fields (json_at j ''fields'') st = read_fields (json_at j' ''fields'') st"
    by (intro read_fields_same) (simp add: same_known_keys_def)
  with p c show ?thesis
    by (simp add: read_document_def)
qed

lemma same_known_keys_update:
  assumes "key \<noteq> ''fields''" and "key \<noteq> ''treeRulesPrompt''"
  shows "same_known_keys (JObject (AList.update key v kvs)) (JObject kvs)"
  using assms
  by (simp add: same_known_keys_def same_entry_def json_contains_def json_at_def update_conv'
      list_all_iff)

lemma same_known_keys_update_fields:
  assumes "key \<notin> set (map fst flag_table)"
  shows "same_known_keys (JObject [(''fields'', JObject (AList.update key v kvs))])
           (JObject [(''fields'', JObject kvs)])"
  using assms
  by (auto simp: same_known_keys_def same_entry_def json_contains_def json_at_def update_conv'
      list_all_iff)

lemma keywords_only_config:
  "ParseScanConfig example_parse keywords_only_text
     = default_ScanConfig \<lparr> cfg_fields := default_FieldConfig \<lparr> keywords := True \<rparr> \<rparr>"
proof -
  have ne: "keywords_only_text \<noteq> []"
    by (simp add: keywords_only_text_def)
  have p: "example_parse keywords_only_text = Some keywords_only"
    by (simp add: example_parse_def)
  have "fst (read_document keywords_only (default_ScanConfig, None))
          = default_ScanConfig \<lparr> cfg_fields := default_FieldConfig \<lparr> keywords := True \<rparr> \<rparr>"
    by (simp add: read_document_def read_fields_def read_prompt_def run_def read_flag_def
        keywords_only_def json_contains_def json_at_def get_bool_def default_ScanConfig_def)
  with ParseScanConfig_parsed [of keywords_only_text example_parse keywords_only, OF ne p] show ?thesis by simp
qed

text \<open>
  Claim C4, as the code has it. \<open>ParseScanConfig\<close> returns a configuration for every
  input: the parse error of the JSON library and the type error of a wrongly typed value
  are both caught, and the configuration as it stands is returned. An empty input and an
  input that the JSON library cannot parse give the documented defaults, \<open>editorId\<close> and
  \<open>magickaCost\<close> true, the other eight flags false, \<open>treeRulesPrompt\<close> empty. For every
  document, a flag whose key is absent keeps its default, and so does \<open>treeRulesPrompt\<close>.
  Two documents with the same known keys give the same configuration, so adding an
  unknown key, at the top or inside \<open>fields\<close>, changes nothing. The document that sets
  only \<open>fields.keywords\<close> to true gives the defaults with \<open>keywords\<close> true.
\<close>

theorem ParseScanConfig_defaults:
  "ParseScanConfig parse [] = default_ScanConfig
   \<and> (parse jsonConfig = None \<longrightarrow> ParseScanConfig parse jsonConfig = default_ScanConfig)
   \<and> default_ScanConfig
       = \<lparr> cfg_fields = \<lparr> editorId = True, magickaCost = True, minimumSkill = False,
             castingType = False, delivery = False, chargeTime = False, plugin = False,
             effects = False, effectNames = False, keywords = False \<rparr>,
           treeRulesPrompt = [] \<rparr>
   \<and> (parse jsonConfig = Some j
       \<longrightarrow> (\<forall>(key, flag)\<in>set flag_table.
              \<not> flag_present j key
              \<longrightarrow> flag (cfg_fields (ParseScanConfig parse jsonConfig)) = flag default_FieldConfig)
           \<and> (\<not> json_contains j ''treeRulesPrompt''
              \<longrightarrow> treeRulesPrompt (ParseScanConfig parse jsonConfig) = []))
   \<and> (jsonConfig \<noteq> [] \<and> jsonConfig' \<noteq> []
       \<and> parse jsonConfig = Some j \<and> parse jsonConfig' = Some j' \<and> same_known_keys j j'
       \<longrightarrow> ParseScanConfig parse jsonConfig = ParseScanConfig parse jsonConfig')
   \<and> (key \<noteq> ''fields'' \<and> key \<noteq> ''treeRulesPrompt''
       \<longrightarrow> same_known_keys (JObject (AList.update key v kvs)) (JObject kvs))
   \<and> (key \<notin> set (map fst flag_table)
       \<longrightarrow> same_known_keys (JObject [(''fields'', JObject (AList.update key v kvs))])
             (JObject [(''fields'', JObject kvs)]))
   \<and> ParseScanConfig example_parse keywords_only_text
       = default_ScanConfig \<lparr> cfg_fields := default_FieldConfig \<lparr> keywords := True \<rparr> \<rparr>"
proof -
  have unparsed: "parse jsonConfig = None \<longrightarrow> ParseScanConfig parse jsonConfig = default_ScanConfig"
    by (simp add: ParseScanConfig_unparsed)
  have defaults: "default_ScanConfig
       = \<lparr> cfg_fields = \<lparr> editorId = True, magickaCost = True, minimumSkill = False,
             castingType = False, delivery = False, chargeTime = False, plugin = False,
             effects = False, effectNames = False, keywords = False \<rparr>,
           treeRulesPrompt = [] \<rparr>"
    by (simp add: default_ScanConfig_def default_FieldConfig_def)
  have absent: "parse jsonConfig = Some j
       \<longrightarrow> (\<forall>(key, flag)\<in>set flag_table.
              \<not> flag_present j key
              \<longrightarrow> flag (cfg_fields (ParseScanConfig parse jsonConfig)) = flag default_FieldConfig)
           \<and> (\<not> json_contains j ''treeRulesPrompt''
              \<longrightarrow> treeRulesPrompt (ParseScanConfig parse jsonConfig) = [])"
  proof (intro impI conjI ballI)
    fix x
    assume p: "parse jsonConfig = Some j" and x: "x \<in> set flag_table"
    obtain key flag where kf: "x = (key, flag)" by (cases x)
    have "\<not> flag_present j key
              \<longrightarrow> flag (cfg_fields (ParseScanConfig parse jsonConfig)) = flag default_FieldConfig"
      using ParseScanConfig_flag_absent [of parse jsonConfig j key flag] p x kf by blast
    then show "case x of (key, flag) \<Rightarrow> \<not> flag_present j key
              \<longrightarrow> flag (cfg_fields (ParseScanConfig parse jsonConfig)) = flag default_FieldConfig"
      unfolding kf by simp
  next
    assume "parse jsonConfig = Some j" and "\<not> json_contains j ''treeRulesPrompt''"
    then show "treeRulesPrompt (ParseScanConfig parse jsonConfig) = []"
      using ParseScanConfig_prompt_absent [of parse jsonConfig j] by blast
  qed
  have unknown: "jsonConfig \<noteq> [] \<and> jsonConfig' \<noteq> []
       \<and> parse jsonConfig = Some j \<and> parse jsonConfig' = Some j' \<and> same_known_keys j j'
       \<longrightarrow> ParseScanConfig parse jsonConfig = ParseScanConfig parse jsonConfig'"
    using read_document_same [of j j' "(default_ScanConfig, None)"]
    by (simp add: ParseScanConfig_def try_block_def)
  have top: "key \<noteq> ''fields'' \<and> key \<noteq> ''treeRulesPrompt''
       \<longrightarrow> same_known_keys (JObject (AList.update key v kvs)) (JObject kvs)"
    using same_known_keys_update [of key v kvs] by blast
  have inner: "key \<notin> set (map fst flag_table)
       \<longrightarrow> same_known_keys (JObject [(''fields'', JObject (AList.update key v kvs))])
             (JObject [(''fields'', JObject kvs)])"
    using same_known_keys_update_fields [of key v kvs] by blast
  show ?thesis
    by (intro conjI ParseScanConfig_empty unparsed defaults absent unknown top inner
        keywords_only_config)
qed

theorem ParseScanConfig_defaults_witness:
  "example_parse ''{not json'' = None
   \<and> ParseScanConfig example_parse ''{not json'' = default_ScanConfig
   \<and> example_parse keywords_only_text = Some keywords_only
   \<and> editorId (cfg_fields (ParseScanConfig example_parse keywords_only_text)) = True
   \<and> treeRulesPrompt (ParseScanConfig example_parse keywords_only_text) = []"
proof -
  have n: "example_parse ''{not json'' = None"
    by (simp add: example_parse_def keywords_only_text_def ill_typed_text_def)
  have p: "example_parse keywords_only_text = Some keywords_only"
    by (simp add: example_parse_def)
  have m: "(''editorId'', editorId) \<in> set flag_table"
    by (simp add: flag_table_def)
  have a: "\<not> flag_present keywords_only ''editorId''"
    "\<not> json_contains keywords_only ''treeRulesPrompt''"
    by (simp_all add: flag_present_def keywords_only_def json_contains_def json_at_def)
  have d: "editorId default_FieldConfig = True"
    by (simp add: default_FieldConfig_def)
  note unparsed = ParseScanConfig_defaults [where parse = example_parse
      and jsonConfig = "''{not json''", THEN conjunct2, THEN conjunct1]
  from unparsed n
  have first: "ParseScanConfig example_parse ''{not json'' = default_ScanConfig"
    by (rule mp)
  note absent = ParseScanConfig_defaults [where parse = example_parse
      and jsonConfig = keywords_only_text and j = keywords_only,
      THEN conjunct2, THEN conjunct2, THEN conjunct2, THEN conjunct1]
  from absent p
  have "(\<forall>(key, flag)\<in>set flag_table.
              \<not> flag_present keywords_only key
              \<longrightarrow> flag (cfg_fields (ParseScanConfig example_parse keywords_only_text))
                    = flag default_FieldConfig)
           \<and> (\<not> json_contains keywords_only ''treeRulesPrompt''
              \<longrightarrow> treeRulesPrompt (ParseScanConfig example_parse keywords_only_text) = [])"
    by (rule mp)
  then have all: "\<forall>(key, flag)\<in>set flag_table.
              \<not> flag_present keywords_only key
              \<longrightarrow> flag (cfg_fields (ParseScanConfig example_parse keywords_only_text))
                    = flag default_FieldConfig"
    and t: "\<not> json_contains keywords_only ''treeRulesPrompt''
              \<longrightarrow> treeRulesPrompt (ParseScanConfig example_parse keywords_only_text) = []"
    by (rule conjunct1, rule conjunct2)
  from bspec [OF all m] a(1) d
  have e: "editorId (cfg_fields (ParseScanConfig example_parse keywords_only_text)) = True"
    by simp
  from t a(2) have "treeRulesPrompt (ParseScanConfig example_parse keywords_only_text) = []"
    by (rule mp)
  with n p first e show ?thesis by (intro conjI)
qed

text \<open>
  The claim as the specification states it, a malformed configuration document falls back
  to the defaults, fails for a document that is well-formed JSON with a wrongly typed
  value: the type error is raised after \<open>editorId\<close> has been set to false, and the
  configuration returned has \<open>editorId\<close> false, which is not its default.
\<close>

theorem ParseScanConfig_ill_typed_document:
  "example_parse ill_typed_text = Some ill_typed
   \<and> snd (try_block example_parse ill_typed_text default_ScanConfig) = Some type_error
   \<and> editorId (cfg_fields (ParseScanConfig example_parse ill_typed_text)) = False
   \<and> editorId (cfg_fields default_ScanConfig) = True"
proof -
  have p: "example_parse ill_typed_text = Some ill_typed"
    by (simp add: example_parse_def ill_typed_text_def keywords_only_text_def quoted_def)
  have ne: "ill_typed_text \<noteq> []"
    by (simp add: ill_typed_text_def)
  have r: "read_document ill_typed (default_ScanConfig, None)
      = (default_ScanConfig \<lparr> cfg_fields := default_FieldConfig \<lparr> editorId := False \<rparr> \<rparr>,
         Some type_error)"
    by (simp add: read_document_def read_fields_def read_prompt_def run_def read_flag_def
        ill_typed_def json_contains_def json_at_def get_bool_def default_ScanConfig_def)
  from p ne r show ?thesis
    by (simp add: ParseScanConfig_def try_block_def default_ScanConfig_def default_FieldConfig_def)
qed

end
